theory Spec2Isabelle
  imports Complex_Main
begin

section \<open>Numbers, vectors and matrices\<close>

text \<open>
  The simulator computes with JavaScript numbers. They are modelled here as the real
  numbers: every operation is the exact one, so rounding, overflow, signed zeros and
  NaN do not occur, and \<open>Math.sin\<close>, \<open>Math.cos\<close>, \<open>Math.acos\<close> are
  \<^const>\<open>sin\<close>, \<^const>\<open>cos\<close>, \<^const>\<open>arccos\<close>. What is proved of these definitions is a
  statement about the geometry the code computes in exact arithmetic. The forward
  placement and the picking inverse have a second model on binary64 numbers, further
  down, for the properties that the rounding decides.
\<close>

definition EARTH_RADIUS :: real where
  "EARTH_RADIUS = 6371"

text \<open>\<open>THREE.MathUtils.degToRad\<close> and \<open>radToDeg\<close>: multiplication by \<open>Math.PI / 180\<close>
  and by \<open>180 / Math.PI\<close>.\<close>

definition degToRad :: "real \<Rightarrow> real" where
  "degToRad degrees = degrees * (pi / 180)"

definition radToDeg :: "real \<Rightarrow> real" where
  "radToDeg radians = radians * (180 / pi)"

text \<open>\<open>Math.atan2(y, x)\<close> on real arguments: the angle of the point \<open>(x, y)\<close>, and 0 at
  the origin.\<close>

definition atan2 :: "real \<Rightarrow> real \<Rightarrow> real" where
  "atan2 b a =
     (if 0 < a then arctan (b / a)
      else if a < 0 then (if 0 \<le> b then arctan (b / a) + pi else arctan (b / a) - pi)
      else if 0 < b then pi / 2
      else if b < 0 then - (pi / 2)
      else 0)"

datatype Vector3 = Vector3 (vx: real) (vy: real) (vz: real)

text \<open>The methods of \<open>THREE.Vector3\<close> the simulator calls. \<open>normalize\<close> divides by
  \<open>this.length() || 1\<close>, so the zero vector stays the zero vector.\<close>

definition vlength :: "Vector3 \<Rightarrow> real" where
  "vlength v = sqrt (vx v * vx v + vy v * vy v + vz v * vz v)"

definition multiplyScalar :: "Vector3 \<Rightarrow> real \<Rightarrow> Vector3" where
  "multiplyScalar v s = Vector3 (vx v * s) (vy v * s) (vz v * s)"

definition divideScalar :: "Vector3 \<Rightarrow> real \<Rightarrow> Vector3" where
  "divideScalar v s = multiplyScalar v (1 / s)"

definition vnormalize :: "Vector3 \<Rightarrow> Vector3" where
  "vnormalize v = divideScalar v (if vlength v = 0 then 1 else vlength v)"

definition dot :: "Vector3 \<Rightarrow> Vector3 \<Rightarrow> real" where
  "dot v w = vx v * vx w + vy v * vy w + vz v * vz w"

definition crossVectors :: "Vector3 \<Rightarrow> Vector3 \<Rightarrow> Vector3" where
  "crossVectors a b =
     Vector3 (vy a * vz b - vz a * vy b)
             (vz a * vx b - vx a * vz b)
             (vx a * vy b - vy a * vx b)"

definition addScaledVector :: "Vector3 \<Rightarrow> Vector3 \<Rightarrow> real \<Rightarrow> Vector3" where
  "addScaledVector v w s = Vector3 (vx v + vx w * s) (vy v + vy w * s) (vz v + vz w * s)"

definition vadd :: "Vector3 \<Rightarrow> Vector3 \<Rightarrow> Vector3" where
  "vadd v w = Vector3 (vx v + vx w) (vy v + vy w) (vz v + vz w)"

definition vsub :: "Vector3 \<Rightarrow> Vector3 \<Rightarrow> Vector3" where
  "vsub v w = Vector3 (vx v - vx w) (vy v - vy w) (vz v - vz w)"

text \<open>\<open>THREE.Matrix4\<close>, by its entries in the row-major order of \<open>Matrix4.set\<close>.\<close>

datatype Matrix4 = Matrix4
  (n11: real) (n12: real) (n13: real) (n14: real)
  (n21: real) (n22: real) (n23: real) (n24: real)
  (n31: real) (n32: real) (n33: real) (n34: real)
  (n41: real) (n42: real) (n43: real) (n44: real)

definition makeRotationY :: "real \<Rightarrow> Matrix4" where
  "makeRotationY theta =
     (let c = cos theta; s = sin theta in
      Matrix4 c 0 s 0
              0 1 0 0
              (- s) 0 c 0
              0 0 0 1)"

definition makeRotationZ :: "real \<Rightarrow> Matrix4" where
  "makeRotationZ theta =
     (let c = cos theta; s = sin theta in
      Matrix4 c (- s) 0 0
              s c 0 0
              0 0 1 0
              0 0 0 1)"

definition multiplyMatrices :: "Matrix4 \<Rightarrow> Matrix4 \<Rightarrow> Matrix4" where
  "multiplyMatrices a b = Matrix4
     (n11 a * n11 b + n12 a * n21 b + n13 a * n31 b + n14 a * n41 b)
     (n11 a * n12 b + n12 a * n22 b + n13 a * n32 b + n14 a * n42 b)
     (n11 a * n13 b + n12 a * n23 b + n13 a * n33 b + n14 a * n43 b)
     (n11 a * n14 b + n12 a * n24 b + n13 a * n34 b + n14 a * n44 b)
     (n21 a * n11 b + n22 a * n21 b + n23 a * n31 b + n24 a * n41 b)
     (n21 a * n12 b + n22 a * n22 b + n23 a * n32 b + n24 a * n42 b)
     (n21 a * n13 b + n22 a * n23 b + n23 a * n33 b + n24 a * n43 b)
     (n21 a * n14 b + n22 a * n24 b + n23 a * n34 b + n24 a * n44 b)
     (n31 a * n11 b + n32 a * n21 b + n33 a * n31 b + n34 a * n41 b)
     (n31 a * n12 b + n32 a * n22 b + n33 a * n32 b + n34 a * n42 b)
     (n31 a * n13 b + n32 a * n23 b + n33 a * n33 b + n34 a * n43 b)
     (n31 a * n14 b + n32 a * n24 b + n33 a * n34 b + n34 a * n44 b)
     (n41 a * n11 b + n42 a * n21 b + n43 a * n31 b + n44 a * n41 b)
     (n41 a * n12 b + n42 a * n22 b + n43 a * n32 b + n44 a * n42 b)
     (n41 a * n13 b + n42 a * n23 b + n43 a * n33 b + n44 a * n43 b)
     (n41 a * n14 b + n42 a * n24 b + n43 a * n34 b + n44 a * n44 b)"

text \<open>\<open>Vector3.applyMatrix4\<close>: the vector is extended by 1, multiplied, and divided by
  the fourth component of the product.\<close>

definition applyMatrix4 :: "Vector3 \<Rightarrow> Matrix4 \<Rightarrow> Vector3" where
  "applyMatrix4 v m =
     (let w = 1 / (n41 m * vx v + n42 m * vy v + n43 m * vz v + n44 m) in
      Vector3 ((n11 m * vx v + n12 m * vy v + n13 m * vz v + n14 m) * w)
              ((n21 m * vx v + n22 m * vy v + n23 m * vz v + n24 m) * w)
              ((n31 m * vx v + n32 m * vy v + n33 m * vz v + n34 m) * w))"

text \<open>\<open>Matrix4.makeRotationFromEuler\<close> for the default order \<open>'XYZ'\<close>, which is the
  matrix a mesh with \<open>rotation = (x, y, z)\<close> is drawn with.\<close>

datatype Euler = Euler (ex: real) (ey: real) (ez: real)

definition makeRotationFromEuler :: "Euler \<Rightarrow> Matrix4" where
  "makeRotationFromEuler eu =
     (let a = cos (ex eu); b = sin (ex eu);
          c = cos (ey eu); d = sin (ey eu);
          e = cos (ez eu); f = sin (ez eu);
          ae = a * e; af = a * f; be = b * e; bf = b * f in
      Matrix4 (c * e) (- c * f) d 0
              (af + be * d) (ae - bf * d) (- b * c) 0
              (bf - ae * d) (be + af * d) (a * c) 0
              0 0 0 1)"

text \<open>\<open>THREE.Quaternion\<close> with \<open>normalize\<close> and \<open>setFromUnitVectors\<close>;
  \<open>Number.EPSILON\<close> is \<open>2\<^sup>-\<^sup>5\<^sup>2\<close>.\<close>

datatype Quaternion = Quaternion (qx: real) (qy: real) (qz: real) (qw: real)

definition qnormalize :: "Quaternion \<Rightarrow> Quaternion" where
  "qnormalize q =
     (let l = sqrt (qx q * qx q + qy q * qy q + qz q * qz q + qw q * qw q) in
      if l = 0 then Quaternion 0 0 0 1
      else Quaternion (qx q * (1 / l)) (qy q * (1 / l)) (qz q * (1 / l)) (qw q * (1 / l)))"

definition setFromUnitVectors :: "Vector3 \<Rightarrow> Vector3 \<Rightarrow> Quaternion" where
  "setFromUnitVectors vFrom vTo =
     (let r = dot vFrom vTo + 1 in
      qnormalize
        (if r < 1 / 2 ^ 52 then
           (if \<bar>vx vFrom\<bar> > \<bar>vz vFrom\<bar>
            then Quaternion (- vy vFrom) (vx vFrom) 0 0
            else Quaternion 0 (- vz vFrom) (vy vFrom) 0)
         else
           Quaternion (vy vFrom * vz vTo - vz vFrom * vy vTo)
                      (vz vFrom * vx vTo - vx vFrom * vz vTo)
                      (vx vFrom * vy vTo - vy vFrom * vx vTo)
                      r))"

section \<open>The settings record and the location catalogue\<close>

text \<open>The fields of \<open>RingSimulator.settings\<close> that the geometry, the picking and the
  event handlers read or write. The fields that only style the rings, the stars and the
  picture-in-picture frame are left out.\<close>

record Settings =
  latitude :: real
  longitude :: real
  selectedLocation :: string
  timeOfDay :: real
  pipEnabled :: bool
  pipFov :: real
  pipHeight :: real
  textureRotation :: real
  earthTilt :: real
  pipRotation :: real
  pipTilt :: real

definition initialSettings :: Settings where
  "initialSettings =
     \<lparr> latitude = 0, longitude = 0, selectedLocation = '''',
       timeOfDay = 12, pipEnabled = True, pipFov = 75, pipHeight = 0.2,
       textureRotation = pi, earthTilt = 23.5, pipRotation = 0, pipTilt = 70 \<rparr>"

record Location =
  name :: string
  lat :: real
  lon :: real

definition locations :: "Location list" where
  "locations =
     [ \<lparr> name = ''New York'', lat = 40.7128, lon = 74.0061 \<rparr>,
       \<lparr> name = ''Tokyo'', lat = 35.6833, lon = -139.7667 \<rparr>,
       \<lparr> name = ''Rio de Janeiro'', lat = -22.544, lon = 43.1729 \<rparr>,
       \<lparr> name = ''Sydney'', lat = -33.8688, lon = -151.2093 \<rparr>,
       \<lparr> name = ''Cape Town'', lat = -33.9249, lon = -18.4241 \<rparr>,
       \<lparr> name = ''Dubai'', lat = 25.2048, lon = -55.2708 \<rparr>,
       \<lparr> name = ''Reykjavik'', lat = 64.1466, lon = 21.9426 \<rparr>,
       \<lparr> name = ''Mount Everest'', lat = 27.9881, lon = -86.925 \<rparr> ]"

section \<open>Forward placement: \<open>updateLocationMarker\<close>\<close>

record MarkerPose =
  position :: Vector3
  quaternion :: Quaternion

text \<open>The point on the sphere of radius \<open>EARTH_RADIUS\<close> before the body rotation.\<close>

definition spherePoint :: "Settings \<Rightarrow> Vector3" where
  "spherePoint s =
     (let phi = degToRad (90 - latitude s);
          theta = degToRad (longitude s) in
      Vector3 (EARTH_RADIUS * sin phi * cos theta)
              (EARTH_RADIUS * cos phi)
              (EARTH_RADIUS * sin phi * sin theta))"

text \<open>\<open>rotationMatrix\<close>: the tilt matrix times the texture rotation matrix.\<close>

definition rotationMatrix :: "Settings \<Rightarrow> Matrix4" where
  "rotationMatrix s =
     (let textureRotationMatrix = makeRotationY (textureRotation s);
          tiltMatrix = makeRotationZ (degToRad (earthTilt s)) in
      multiplyMatrices tiltMatrix textureRotationMatrix)"

text \<open>\<open>markerPosition\<close> after \<open>applyMatrix4\<close> and before the offset: the surface point.\<close>

definition surfacePoint :: "Settings \<Rightarrow> Vector3" where
  "surfacePoint s = applyMatrix4 (spherePoint s) (rotationMatrix s)"

definition updateLocationMarker :: "Settings \<Rightarrow> MarkerPose" where
  "updateLocationMarker s =
     (let markerPosition = surfacePoint s;
          normal = vnormalize markerPosition;
          surfaceOffset = 1.02;
          markerPosition' = multiplyScalar (vnormalize markerPosition) (EARTH_RADIUS * surfaceOffset);
          upVector = Vector3 0 1 0 in
      \<lparr> position = markerPosition', quaternion = setFromUnitVectors upVector normal \<rparr>)"

section \<open>Surface picking: the inverse in \<open>onEarthClick\<close>\<close>

text \<open>The hit point with the body rotation undone: first the tilt matrix of the
  negated tilt, then the texture rotation matrix of the negated texture rotation.\<close>

definition untiltedPoint :: "Settings \<Rightarrow> Vector3 \<Rightarrow> Vector3" where
  "untiltedPoint s intersectPoint =
     (let tiltMatrix = makeRotationZ (- degToRad (earthTilt s));
          textureRotationMatrix = makeRotationY (- textureRotation s) in
      applyMatrix4 (applyMatrix4 intersectPoint tiltMatrix) textureRotationMatrix)"

text \<open>The latitude and longitude \<open>onEarthClick\<close> stores for a hit point. At the origin
  the source divides zero by zero; the model is only used away from it.\<close>

definition pickGeoCoordinate :: "Settings \<Rightarrow> Vector3 \<Rightarrow> real \<times> real" where
  "pickGeoCoordinate s intersectPoint =
     (let p = untiltedPoint s intersectPoint;
          radius = vlength p;
          latitude' = 90 - radToDeg (arccos (max (- 1) (min 1 (vy p / radius))));
          longitude' = radToDeg (atan2 (vz p) (vx p)) in
      (latitude', longitude'))"

definition findClosestLocation :: "real \<Rightarrow> real \<Rightarrow> Location option" where
  "findClosestLocation latitude' longitude' =
     find (\<lambda>loc. \<bar>lat loc - latitude'\<bar> < 2 \<and> \<bar>lon loc - longitude'\<bar> < 2) locations"

section \<open>The surface camera: \<open>updatePictureInPicture\<close>\<close>

definition surfaceNormal :: "Vector3 \<Rightarrow> Vector3" where
  "surfaceNormal markerPos = vnormalize markerPos"

definition referenceVector :: "Vector3 \<Rightarrow> Vector3" where
  "referenceVector n = (if \<bar>vy n\<bar> > 0.9 then Vector3 1 0 0 else Vector3 0 1 0)"

definition eastVector :: "Vector3 \<Rightarrow> Vector3" where
  "eastVector n = vnormalize (crossVectors (referenceVector n) n)"

definition northVector :: "Vector3 \<Rightarrow> Vector3" where
  "northVector n = vnormalize (crossVectors n (eastVector n))"

definition hourAngle :: "Settings \<Rightarrow> real" where
  "hourAngle s = timeOfDay s / 24 * pi * 2"

text \<open>\<open>hourAngle + (this.settings.pipRotation || 0)\<close>.\<close>

definition totalRotation :: "Settings \<Rightarrow> real" where
  "totalRotation s = hourAngle s + (if pipRotation s = 0 then 0 else pipRotation s)"

text \<open>\<open>viewDirection\<close> as first computed, before the perpendicularity check.\<close>

definition tangentViewDirection :: "Settings \<Rightarrow> Vector3 \<Rightarrow> Vector3" where
  "tangentViewDirection s n =
     vnormalize
       (addScaledVector
          (addScaledVector (Vector3 0 0 0) (eastVector n) (sin (totalRotation s)))
          (northVector n) (cos (totalRotation s)))"

text \<open>\<open>viewDirection\<close> after the check, which removes the component along the normal
  when the dot product exceeds 0.001 in absolute value.\<close>

definition viewDirection :: "Settings \<Rightarrow> Vector3 \<Rightarrow> Vector3" where
  "viewDirection s n =
     (let v = tangentViewDirection s n;
          dotProduct = dot v n in
      if \<bar>dotProduct\<bar> > 0.001
      then vnormalize (vsub v (multiplyScalar n dotProduct))
      else v)"

definition lookDirection :: "Settings \<Rightarrow> Vector3 \<Rightarrow> Vector3" where
  "lookDirection s n =
     (let tiltRad = degToRad (pipTilt s);
          tiltFactor = sin tiltRad;
          planeFactor = cos tiltRad in
      vnormalize
        (addScaledVector
           (addScaledVector (Vector3 0 0 0) (viewDirection s n) planeFactor)
           n tiltFactor))"

record SurfaceCameraPose =
  cam_position :: Vector3
  cam_up :: Vector3
  cam_lookDirection :: Vector3
  cam_target :: Vector3
  arrow_direction :: Vector3

text \<open>The pose \<open>updatePictureInPicture\<close> gives the surface camera from the settings and
  the current marker position: position, up vector, look direction, the target handed to
  \<open>lookAt\<close>, and the direction of the arrow on the marker. Nothing is computed while the
  view is disabled. The container element the function looks up first exists from
  \<open>setupPictureInPicture\<close> on.\<close>

definition updatePictureInPicture :: "Settings \<Rightarrow> Vector3 \<Rightarrow> SurfaceCameraPose option" where
  "updatePictureInPicture s markerPos =
     (if \<not> pipEnabled s then None
      else
        let n = surfaceNormal markerPos;
            cameraPos = multiplyScalar n (EARTH_RADIUS + pipHeight s);
            look = lookDirection s n;
            targetDistance = EARTH_RADIUS * 5;
            target = vadd cameraPos (multiplyScalar look targetDistance) in
        Some \<lparr> cam_position = cameraPos, cam_up = n, cam_lookDirection = look,
               cam_target = target,
               arrow_direction = viewDirection s n \<rparr>)"

section \<open>The simulator state and its event handlers\<close>

text \<open>The part of a \<open>RingSimulator\<close> the handlers below read and write: the settings, the
  marker, the Euler rotation of the planet mesh, the pose of the surface camera, the
  variables \<open>isDragging\<close>, \<open>previousMouseX\<close>, \<open>previousMouseY\<close>, \<open>rotationAngle\<close> and
  \<open>tiltAngle\<close> that the handlers of \<open>setupPictureInPicture\<close> close over, and the drag
  detection of the main canvas.\<close>

record Simulator =
  settings :: Settings
  locationMarker :: MarkerPose
  earthRotation :: Euler
  pipCamera :: "SurfaceCameraPose option"
  isDragging :: bool
  previousMouseX :: real
  previousMouseY :: real
  rotationAngle :: real
  tiltAngle :: real
  isDraggingOrbit :: bool
  dragTotalMovement :: real
  hasDragged :: bool

definition updateEarthRotation :: "Simulator \<Rightarrow> Simulator" where
  "updateEarthRotation st =
     st\<lparr> earthRotation :=
           Euler 0 (textureRotation (settings st)) (degToRad (earthTilt (settings st))) \<rparr>"

definition refreshPictureInPicture :: "Simulator \<Rightarrow> Simulator" where
  "refreshPictureInPicture st =
     (case updatePictureInPicture (settings st) (position (locationMarker st)) of
        None \<Rightarrow> st
      | Some pose \<Rightarrow> st\<lparr> pipCamera := Some pose \<rparr>)"

definition updateView :: "Simulator \<Rightarrow> Simulator" where
  "updateView st =
     (let st1 = st\<lparr> locationMarker := updateLocationMarker (settings st) \<rparr>;
          st2 = (if pipEnabled (settings st1) then refreshPictureInPicture st1 else st1);
          st3 = st2\<lparr> earthRotation :=
                      Euler (ex (earthRotation st2))
                            (textureRotation (settings st2) + hourAngle (settings st2))
                            (ez (earthRotation st2)) \<rparr> in
      if selectedLocation (settings st3) \<noteq> ''Custom''
         \<and> find (\<lambda>loc. \<bar>lat loc - latitude (settings st3)\<bar> < 0.1
                      \<and> \<bar>lon loc - longitude (settings st3)\<bar> < 0.1) locations = None
      then st3\<lparr> settings := (settings st3)\<lparr> selectedLocation := ''Custom'' \<rparr> \<rparr>
      else st3)"

text \<open>\<open>onEarthClick\<close>, given what the ray caster returned: no intersection, or the first
  intersection point with the planet mesh.\<close>

definition onEarthClick :: "Vector3 option \<Rightarrow> Simulator \<Rightarrow> Simulator" where
  "onEarthClick hit st =
     (if hasDragged st then st\<lparr> hasDragged := False \<rparr>
      else case hit of
        None \<Rightarrow> st
      | Some intersectPoint \<Rightarrow>
          (let (latitude', longitude') = pickGeoCoordinate (settings st) intersectPoint;
               st1 = st\<lparr> settings := (settings st)\<lparr> latitude := latitude',
                                                     longitude := longitude',
                                                     selectedLocation := ''Custom'' \<rparr> \<rparr>;
               st2 = updateView st1 in
           case findClosestLocation latitude' longitude' of
             None \<Rightarrow> st2
           | Some closestLocation \<Rightarrow>
               st2\<lparr> settings := (settings st2)\<lparr> selectedLocation := name closestLocation \<rparr> \<rparr>))"

datatype Event =
    PipMouseDown real real
  | PipMouseMove real real
  | PipMouseUp
  | PipWheel real
  | KeyDown string
  | DocumentMouseUp
  | CanvasMouseDown
  | CanvasMouseMove real real
  | EarthClick "Vector3 option"
  | AnimationFrame
  | TextureLoaded
  | GuiSelectLocation string
  | GuiLatitude real
  | GuiLongitude real
  | GuiTimeOfDay real
  | GuiPipEnabled bool
  | GuiPipFov real
  | GuiPipHeight real
  | GuiTextureRotation real
  | GuiEarthTilt real

text \<open>The \<open>mousemove\<close> handler of the picture-in-picture container: the only place that
  writes \<open>settings.pipTilt\<close>.\<close>

definition pipMouseMove :: "real \<Rightarrow> real \<Rightarrow> Simulator \<Rightarrow> Simulator" where
  "pipMouseMove clientX clientY st =
     (if \<not> isDragging st then st
      else
        let deltaX = clientX - previousMouseX st;
            deltaY = clientY - previousMouseY st;
            rotationAngle' = rotationAngle st + deltaX * 0.01;
            tiltAngle' = tiltAngle st - deltaY * 0.2;
            tiltAngle'' = max 10 (min 170 tiltAngle') in
        refreshPictureInPicture
          (st\<lparr> rotationAngle := rotationAngle', tiltAngle := tiltAngle'',
                previousMouseX := clientX, previousMouseY := clientY,
                settings := (settings st)\<lparr> pipRotation := rotationAngle',
                                             pipTilt := tiltAngle'' \<rparr> \<rparr>))"

text \<open>The \<open>keydown\<close> handler of the document, for a key pressed outside an input field:
  W and S change the height of the surface camera, Q and E its field of view.\<close>

definition keyDown :: "string \<Rightarrow> Simulator \<Rightarrow> Simulator" where
  "keyDown key st =
     (let s = settings st in
      if \<not> pipEnabled s then st
      else
        let st1 =
              (if key = ''w'' \<or> key = ''W'' then
                 refreshPictureInPicture
                   (st\<lparr> settings := s\<lparr> pipHeight := min 5 (pipHeight s * 1.1) \<rparr> \<rparr>)
               else if key = ''s'' \<or> key = ''S'' then
                 refreshPictureInPicture
                   (st\<lparr> settings := s\<lparr> pipHeight := max (- 2) (pipHeight s * 0.9) \<rparr> \<rparr>)
               else st);
            s1 = settings st1 in
        if key = ''q'' \<or> key = ''Q'' then
          refreshPictureInPicture (st1\<lparr> settings := s1\<lparr> pipFov := max 20 (pipFov s1 - 2) \<rparr> \<rparr>)
        else if key = ''e'' \<or> key = ''E'' then
          refreshPictureInPicture (st1\<lparr> settings := s1\<lparr> pipFov := min 120 (pipFov s1 + 2) \<rparr> \<rparr>)
        else st1)"

definition guiSelectLocation :: "string \<Rightarrow> Simulator \<Rightarrow> Simulator" where
  "guiSelectLocation v st =
     (let st1 = st\<lparr> settings := (settings st)\<lparr> selectedLocation := v \<rparr> \<rparr> in
      if v = ''Custom'' then st1
      else case find (\<lambda>loc. name loc = v) locations of
        None \<Rightarrow> st1
      | Some location \<Rightarrow>
          updateView (st1\<lparr> settings := (settings st1)\<lparr> latitude := lat location,
                                                        longitude := lon location \<rparr> \<rparr>))"

fun handleEvent :: "Event \<Rightarrow> Simulator \<Rightarrow> Simulator" where
  "handleEvent (PipMouseDown clientX clientY) st =
     st\<lparr> isDragging := True, previousMouseX := clientX, previousMouseY := clientY \<rparr>"
| "handleEvent (PipMouseMove clientX clientY) st = pipMouseMove clientX clientY st"
| "handleEvent PipMouseUp st = st\<lparr> isDragging := False \<rparr>"
| "handleEvent (PipWheel deltaY) st =
     refreshPictureInPicture
       (st\<lparr> settings := (settings st)
               \<lparr> pipFov := max 20 (min 120 (pipFov (settings st) + deltaY * 0.05)) \<rparr> \<rparr>)"
| "handleEvent (KeyDown key) st = keyDown key st"
| "handleEvent DocumentMouseUp st = st\<lparr> isDraggingOrbit := False, isDragging := False \<rparr>"
| "handleEvent CanvasMouseDown st =
     st\<lparr> isDraggingOrbit := True, dragTotalMovement := 0, hasDragged := False \<rparr>"
| "handleEvent (CanvasMouseMove movementX movementY) st =
     (if isDraggingOrbit st then
        let total = dragTotalMovement st + \<bar>movementX\<bar> + \<bar>movementY\<bar>;
            st1 = st\<lparr> dragTotalMovement := total \<rparr> in
        if total > 10 then st1\<lparr> hasDragged := True \<rparr> else st1
      else st)"
| "handleEvent (EarthClick hit) st = onEarthClick hit st"
| "handleEvent AnimationFrame st =
     (if pipEnabled (settings st) then refreshPictureInPicture st else st)"
| "handleEvent TextureLoaded st = updateView st"
| "handleEvent (GuiSelectLocation v) st = guiSelectLocation v st"
| "handleEvent (GuiLatitude v) st =
     updateView (st\<lparr> settings := (settings st)\<lparr> latitude := v \<rparr> \<rparr>)"
| "handleEvent (GuiLongitude v) st =
     updateView (st\<lparr> settings := (settings st)\<lparr> longitude := v \<rparr> \<rparr>)"
| "handleEvent (GuiTimeOfDay v) st =
     updateView (st\<lparr> settings := (settings st)\<lparr> timeOfDay := v \<rparr> \<rparr>)"
| "handleEvent (GuiPipEnabled v) st =
     refreshPictureInPicture (st\<lparr> settings := (settings st)\<lparr> pipEnabled := v \<rparr> \<rparr>)"
| "handleEvent (GuiPipFov v) st =
     refreshPictureInPicture (st\<lparr> settings := (settings st)\<lparr> pipFov := v \<rparr> \<rparr>)"
| "handleEvent (GuiPipHeight v) st =
     refreshPictureInPicture (st\<lparr> settings := (settings st)\<lparr> pipHeight := v \<rparr> \<rparr>)"
| "handleEvent (GuiTextureRotation v) st =
     updateView (updateEarthRotation (st\<lparr> settings := (settings st)\<lparr> textureRotation := v \<rparr> \<rparr>))"
| "handleEvent (GuiEarthTilt v) st =
     updateView (updateEarthRotation (st\<lparr> settings := (settings st)\<lparr> earthTilt := v \<rparr> \<rparr>))"

text \<open>The state the constructor leaves: the marker placed, the mesh rotated by
  \<open>updateEarthRotation\<close>, the drag variables initialised from the settings, and the first
  animation frame drawn.\<close>

definition initialState :: Simulator where
  "initialState =
     refreshPictureInPicture
       (updateEarthRotation
          \<lparr> settings = initialSettings,
            locationMarker = updateLocationMarker initialSettings,
            earthRotation = Euler 0 0 0,
            pipCamera = None,
            isDragging = False, previousMouseX = 0, previousMouseY = 0,
            rotationAngle = 0, tiltAngle = pipTilt initialSettings,
            isDraggingOrbit = False, dragTotalMovement = 0, hasDragged = False \<rparr>)"

text \<open>The state after a sequence of events, oldest first.\<close>

fun run :: "Event list \<Rightarrow> Simulator \<Rightarrow> Simulator" where
  "run [] st = st"
| "run (e # es) st = run es (handleEvent e st)"

section \<open>Placement and picking on binary64 numbers\<close>

text \<open>
  Where the rounding of the JavaScript numbers decides a claim, the forward placement
  and the picking inverse are also modelled on binary64 numbers: every arithmetic
  operation and every \<open>Math\<close> function returns the exact result rounded to the nearest
  number with 53 significant bits, ties to the even significand. The numbers are still
  real numbers: overflow, gradual underflow, signed zeros and NaN are not modelled.
\<close>

text \<open>Rounding to the nearest integer, ties to even, the unit in the last place of the
  binade of \<open>v\<close>, and rounding to the nearest binary64 number.\<close>

definition rne :: "real \<Rightarrow> int" where
  "rne x =
     (let f = \<lfloor>x\<rfloor> in
      if x - of_int f < 1 / 2 then f
      else if 1 / 2 < x - of_int f then f + 1
      else if even f then f else f + 1)"

definition ulp64 :: "real \<Rightarrow> real" where
  "ulp64 v = 2 powr (of_int \<lfloor>log 2 \<bar>v\<bar>\<rfloor> - 52)"

definition round64 :: "real \<Rightarrow> real" where
  "round64 v = (if v = 0 then 0 else sgn v * (of_int (rne (\<bar>v\<bar> / ulp64 v)) * ulp64 v))"

text \<open>\<open>Math.PI\<close>, and \<open>THREE.MathUtils\<close> with its constants \<open>DEG2RAD\<close> and \<open>RAD2DEG\<close>.\<close>

definition PI64 :: real where
  "PI64 = round64 pi"

definition DEG2RAD64 :: real where
  "DEG2RAD64 = round64 (PI64 / 180)"

definition RAD2DEG64 :: real where
  "RAD2DEG64 = round64 (180 / PI64)"

definition degToRad64 :: "real \<Rightarrow> real" where
  "degToRad64 degrees = round64 (degrees * DEG2RAD64)"

definition radToDeg64 :: "real \<Rightarrow> real" where
  "radToDeg64 radians = round64 (radians * RAD2DEG64)"

text \<open>\<open>makeRotationY\<close>, \<open>makeRotationZ\<close>, \<open>applyMatrix4\<close> and \<open>length\<close> with every
  operation rounded, in the order the library evaluates them.\<close>

definition makeRotationY64 :: "real \<Rightarrow> Matrix4" where
  "makeRotationY64 theta =
     (let c = round64 (cos theta); s = round64 (sin theta) in
      Matrix4 c 0 s 0
              0 1 0 0
              (- s) 0 c 0
              0 0 0 1)"

definition makeRotationZ64 :: "real \<Rightarrow> Matrix4" where
  "makeRotationZ64 theta =
     (let c = round64 (cos theta); s = round64 (sin theta) in
      Matrix4 c (- s) 0 0
              s c 0 0
              0 0 1 0
              0 0 0 1)"

definition applyMatrix4_64 :: "Vector3 \<Rightarrow> Matrix4 \<Rightarrow> Vector3" where
  "applyMatrix4_64 v m =
     (let x = vx v; y = vy v; z = vz v;
          w = round64 (1 / round64 (round64 (round64 (round64 (n41 m * x) + round64 (n42 m * y))
                                              + round64 (n43 m * z)) + n44 m)) in
      Vector3
        (round64 (round64 (round64 (round64 (round64 (n11 m * x) + round64 (n12 m * y))
                                    + round64 (n13 m * z)) + n14 m) * w))
        (round64 (round64 (round64 (round64 (round64 (n21 m * x) + round64 (n22 m * y))
                                    + round64 (n23 m * z)) + n24 m) * w))
        (round64 (round64 (round64 (round64 (round64 (n31 m * x) + round64 (n32 m * y))
                                    + round64 (n33 m * z)) + n34 m) * w)))"

definition vlength64 :: "Vector3 \<Rightarrow> real" where
  "vlength64 v =
     round64 (sqrt (round64 (round64 (round64 (vx v * vx v) + round64 (vy v * vy v))
                             + round64 (vz v * vz v))))"

text \<open>The inverse of \<open>onEarthClick\<close> (see \<open>untiltedPoint\<close> and \<open>pickGeoCoordinate\<close>) on
  binary64 numbers; the settings are taken to hold binary64 values.\<close>

definition untiltedPoint64 :: "Settings \<Rightarrow> Vector3 \<Rightarrow> Vector3" where
  "untiltedPoint64 s intersectPoint =
     (let tiltMatrix = makeRotationZ64 (- degToRad64 (earthTilt s));
          textureRotationMatrix = makeRotationY64 (- textureRotation s) in
      applyMatrix4_64 (applyMatrix4_64 intersectPoint tiltMatrix) textureRotationMatrix)"

definition pickGeoCoordinate64 :: "Settings \<Rightarrow> Vector3 \<Rightarrow> real \<times> real" where
  "pickGeoCoordinate64 s intersectPoint =
     (let p = untiltedPoint64 s intersectPoint;
          radius = vlength64 p;
          latitude' = round64 (90 - radToDeg64 (round64 (arccos
                        (max (- 1) (min 1 (round64 (vy p / radius)))))));
          longitude' = radToDeg64 (round64 (atan2 (vz p) (vx p))) in
      (latitude', longitude'))"





section \<open>Vector algebra\<close>

lemma vlength_dot: "vlength v = sqrt (dot v v)"
  by (simp add: vlength_def dot_def)

lemma dot_nonneg: "0 \<le> dot v v"
  by (simp add: dot_def)

lemma vlength_nonneg: "0 \<le> vlength v"
  by (simp add: vlength_dot dot_nonneg)

lemma vlength_eq_1_iff: "vlength v = 1 \<longleftrightarrow> dot v v = 1"
  by (simp add: vlength_dot)

lemma vlength_eq_0_iff: "vlength v = 0 \<longleftrightarrow> dot v v = 0"
  by (simp add: vlength_dot dot_nonneg)

lemma dot_multiplyScalar_left: "dot (multiplyScalar a k) b = k * dot a b"
  by (simp add: dot_def multiplyScalar_def algebra_simps)

lemma dot_multiplyScalar_right: "dot a (multiplyScalar b k) = k * dot a b"
  by (simp add: dot_def multiplyScalar_def algebra_simps)

lemma vlength_multiplyScalar: "vlength (multiplyScalar v k) = \<bar>k\<bar> * vlength v"
proof -
  have "dot (multiplyScalar v k) (multiplyScalar v k) = k\<^sup>2 * dot v v"
    by (simp add: dot_multiplyScalar_left dot_multiplyScalar_right power2_eq_square)
  then show ?thesis
    by (simp add: vlength_dot real_sqrt_mult)
qed

lemma normalize_nonzero:
  "vlength v \<noteq> 0 \<Longrightarrow> vnormalize v = multiplyScalar v (1 / vlength v)"
  by (simp add: vnormalize_def divideScalar_def)

lemma normalize_zero: "vlength v = 0 \<Longrightarrow> vnormalize v = v"
  by (cases v) (simp add: vnormalize_def divideScalar_def multiplyScalar_def)

lemma vlength_normalize: "vlength v \<noteq> 0 \<Longrightarrow> vlength (vnormalize v) = 1"
  using vlength_nonneg [of v]
  by (simp add: normalize_nonzero vlength_multiplyScalar)

lemma normalize_unit: "vlength v = 1 \<Longrightarrow> vnormalize v = v"
  by (cases v) (simp add: vnormalize_def divideScalar_def multiplyScalar_def)

lemma dot_normalize_left: "dot a b = 0 \<Longrightarrow> dot (vnormalize a) b = 0"
  by (simp add: vnormalize_def divideScalar_def dot_multiplyScalar_left)

lemma dot_cross_right: "dot (crossVectors a b) b = 0"
  by (simp add: dot_def crossVectors_def algebra_simps)

lemma dot_cross_left: "dot (crossVectors a b) a = 0"
  by (simp add: dot_def crossVectors_def algebra_simps)

lemma dot_commute: "dot a b = dot b a"
  by (simp add: dot_def algebra_simps)

lemma cross_lagrange:
  "dot (crossVectors a b) (crossVectors a b) = dot a a * dot b b - dot a b * dot a b"
  by (simp add: dot_def crossVectors_def algebra_simps)

lemma dot_combination:
  "dot (addScaledVector (addScaledVector (Vector3 0 0 0) a p) b q) c = p * dot a c + q * dot b c"
  by (simp add: dot_def addScaledVector_def algebra_simps)

lemma norm_combination:
  "dot (addScaledVector (addScaledVector (Vector3 0 0 0) a p) b q)
       (addScaledVector (addScaledVector (Vector3 0 0 0) a p) b q)
   = p * p * dot a a + 2 * p * q * dot a b + q * q * dot b b"
  by (simp add: dot_def addScaledVector_def algebra_simps)

section \<open>Rotations\<close>

lemma applyMatrix4_makeRotationZ:
  "applyMatrix4 v (makeRotationZ t) =
     Vector3 (cos t * vx v - sin t * vy v) (sin t * vx v + cos t * vy v) (vz v)"
  by (simp add: applyMatrix4_def makeRotationZ_def Let_def)

lemma applyMatrix4_makeRotationY:
  "applyMatrix4 v (makeRotationY a) =
     Vector3 (cos a * vx v + sin a * vz v) (vy v) (cos a * vz v - sin a * vx v)"
  by (simp add: applyMatrix4_def makeRotationY_def Let_def)

lemma applyMatrix4_rotation_product:
  "applyMatrix4 v (multiplyMatrices (makeRotationZ t) (makeRotationY a)) =
     applyMatrix4 (applyMatrix4 v (makeRotationY a)) (makeRotationZ t)"
  by (simp add: applyMatrix4_def makeRotationY_def makeRotationZ_def multiplyMatrices_def Let_def algebra_simps)

lemma sin_cos_cancel: "sin t * (sin t * x) + cos t * (cos t * x) = (x::real)"
proof -
  have one: "sin t * sin t + cos t * cos t = 1"
    using sin_cos_squared_add [of t] by (simp add: power2_eq_square)
  have "sin t * (sin t * x) + cos t * (cos t * x) = (sin t * sin t + cos t * cos t) * x"
    by (simp only: distrib_right mult.assoc)
  also have "\<dots> = x" by (simp only: one mult_1)
  finally show ?thesis .
qed

lemma unrotateZ:
  "applyMatrix4 (applyMatrix4 v (makeRotationZ t)) (makeRotationZ (- t)) = v"
proof -
  have a: "cos t * (cos t * vx v - sin t * vy v) + sin t * (sin t * vx v + cos t * vy v) = vx v"
    using sin_cos_cancel [of t "vx v"] by (simp add: algebra_simps)
  have b: "cos t * (sin t * vx v + cos t * vy v) - sin t * (cos t * vx v - sin t * vy v) = vy v"
    using sin_cos_cancel [of t "vy v"] by (simp add: algebra_simps)
  show ?thesis
    by (cases v) (use a b in \<open>simp add: applyMatrix4_makeRotationZ\<close>)
qed

lemma unrotateY:
  "applyMatrix4 (applyMatrix4 v (makeRotationY a)) (makeRotationY (- a)) = v"
proof -
  have a: "cos a * (cos a * vx v + sin a * vz v) - sin a * (cos a * vz v - sin a * vx v) = vx v"
    using sin_cos_cancel [of a "vx v"] by (simp add: algebra_simps)
  have b: "cos a * (cos a * vz v - sin a * vx v) + sin a * (cos a * vx v + sin a * vz v) = vz v"
    using sin_cos_cancel [of a "vz v"] by (simp add: algebra_simps)
  show ?thesis
    by (cases v) (use a b in \<open>simp add: applyMatrix4_makeRotationY\<close>)
qed

lemma untilted_rotated:
  assumes "textureRotation s' = textureRotation s" and "earthTilt s' = earthTilt s"
  shows "untiltedPoint s (applyMatrix4 v (rotationMatrix s')) = v"
  using assms
  by (simp add: untiltedPoint_def rotationMatrix_def Let_def
      applyMatrix4_rotation_product unrotateZ unrotateY)

lemma dot_rotZ:
  "dot (applyMatrix4 v (makeRotationZ t)) (applyMatrix4 v (makeRotationZ t)) = dot v v"
proof -
  have "(cos t * vx v - sin t * vy v) * (cos t * vx v - sin t * vy v)
      + (sin t * vx v + cos t * vy v) * (sin t * vx v + cos t * vy v)
      = (sin t * (sin t * (vx v * vx v)) + cos t * (cos t * (vx v * vx v)))
      + (sin t * (sin t * (vy v * vy v)) + cos t * (cos t * (vy v * vy v)))"
    by (simp add: algebra_simps)
  then show ?thesis
    by (simp add: applyMatrix4_makeRotationZ dot_def sin_cos_cancel)
qed

lemma dot_rotY:
  "dot (applyMatrix4 v (makeRotationY t)) (applyMatrix4 v (makeRotationY t)) = dot v v"
proof -
  have "(cos t * vx v + sin t * vz v) * (cos t * vx v + sin t * vz v)
      + (cos t * vz v - sin t * vx v) * (cos t * vz v - sin t * vx v)
      = (sin t * (sin t * (vx v * vx v)) + cos t * (cos t * (vx v * vx v)))
      + (sin t * (sin t * (vz v * vz v)) + cos t * (cos t * (vz v * vz v)))"
    by (simp add: algebra_simps)
  then have "(cos t * vx v + sin t * vz v) * (cos t * vx v + sin t * vz v)
      + (cos t * vz v - sin t * vx v) * (cos t * vz v - sin t * vx v)
      = vx v * vx v + vz v * vz v"
    by (simp only: sin_cos_cancel)
  then show ?thesis
    by (simp add: applyMatrix4_makeRotationY dot_def)
qed

lemma vlength_rotZ: "vlength (applyMatrix4 v (makeRotationZ t)) = vlength v"
  by (simp add: vlength_dot dot_rotZ)

lemma vlength_rotY: "vlength (applyMatrix4 v (makeRotationY t)) = vlength v"
  by (simp add: vlength_dot dot_rotY)

lemma vlength_untiltedPoint: "vlength (untiltedPoint s p) = vlength p"
  by (simp add: untiltedPoint_def Let_def vlength_rotZ vlength_rotY)

lemma vlength_rotationMatrix: "vlength (applyMatrix4 v (rotationMatrix s)) = vlength v"
  by (simp add: rotationMatrix_def Let_def applyMatrix4_rotation_product vlength_rotZ vlength_rotY)

lemma applyMatrix4_scale_Z:
  "applyMatrix4 (multiplyScalar v k) (makeRotationZ t) = multiplyScalar (applyMatrix4 v (makeRotationZ t)) k"
  by (simp add: applyMatrix4_makeRotationZ multiplyScalar_def algebra_simps)

lemma applyMatrix4_scale_Y:
  "applyMatrix4 (multiplyScalar v k) (makeRotationY t) = multiplyScalar (applyMatrix4 v (makeRotationY t)) k"
  by (simp add: applyMatrix4_makeRotationY multiplyScalar_def algebra_simps)

lemma untiltedPoint_scale:
  "untiltedPoint s (multiplyScalar v k) = multiplyScalar (untiltedPoint s v) k"
  by (simp add: untiltedPoint_def Let_def applyMatrix4_scale_Z applyMatrix4_scale_Y)

section \<open>The sphere\<close>

lemma EARTH_RADIUS_pos: "0 < EARTH_RADIUS"
  by (simp add: EARTH_RADIUS_def)

lemma dot_spherePoint: "dot (spherePoint s) (spherePoint s) = EARTH_RADIUS * EARTH_RADIUS"
proof -
  define p where "p = degToRad (90 - latitude s)"
  define t where "t = degToRad (longitude s)"
  define R where "R = EARTH_RADIUS"
  have "R * sin p * cos t * (R * sin p * cos t) + R * cos p * (R * cos p)
        + R * sin p * sin t * (R * sin p * sin t)
      = sin p * (sin p * (sin t * (sin t * (R * R)) + cos t * (cos t * (R * R))))
        + cos p * (cos p * (R * R))"
    by (simp add: algebra_simps)
  also have "\<dots> = R * R"
    by (simp only: sin_cos_cancel)
  finally show ?thesis
    by (simp add: spherePoint_def dot_def Let_def p_def t_def R_def)
qed

lemma vlength_spherePoint: "vlength (spherePoint s) = EARTH_RADIUS"
  using EARTH_RADIUS_pos by (simp add: vlength_dot dot_spherePoint)

lemma vlength_surfacePoint: "vlength (surfacePoint s) = EARTH_RADIUS"
  by (simp add: surfacePoint_def vlength_rotationMatrix vlength_spherePoint)

lemma normalize_surfacePoint:
  "vnormalize (surfacePoint s) = multiplyScalar (surfacePoint s) (1 / EARTH_RADIUS)"
  using EARTH_RADIUS_pos by (simp add: normalize_nonzero vlength_surfacePoint)

lemma multiplyScalar_twice: "multiplyScalar (multiplyScalar v a) b = multiplyScalar v (a * b)"
  by (simp add: multiplyScalar_def algebra_simps)

lemma marker_position:
  "position (updateLocationMarker s) = multiplyScalar (surfacePoint s) 1.02"
  using EARTH_RADIUS_pos
  by (simp add: updateLocationMarker_def Let_def normalize_surfacePoint multiplyScalar_twice)

lemma marker_normal:
  "surfaceNormal (position (updateLocationMarker s)) = multiplyScalar (surfacePoint s) (1 / EARTH_RADIUS)"
proof -
  let ?m = "position (updateLocationMarker s)"
  have len: "vlength ?m = 1.02 * EARTH_RADIUS"
    by (simp add: marker_position vlength_multiplyScalar vlength_surfacePoint)
  then have nz: "vlength ?m \<noteq> 0" using EARTH_RADIUS_pos by simp
  have "surfaceNormal ?m = multiplyScalar ?m (1 / (1.02 * EARTH_RADIUS))"
    unfolding surfaceNormal_def using normalize_nonzero [OF nz] len by simp
  also have "\<dots> = multiplyScalar (surfacePoint s) (1.02 * (1 / (1.02 * EARTH_RADIUS)))"
    by (simp only: marker_position multiplyScalar_twice)
  also have "1.02 * (1 / (1.02 * EARTH_RADIUS)) = 1 / EARTH_RADIUS"
    by simp
  finally show ?thesis .
qed

lemma marker_normal_unit: "vlength (surfaceNormal (position (updateLocationMarker s))) = 1"
  using EARTH_RADIUS_pos
  by (simp add: marker_normal vlength_multiplyScalar vlength_surfacePoint)

section \<open>Frame property of the marker\<close>

text \<open>
  Claim C10. The marker pose computed by \<open>updateLocationMarker\<close> depends only on the
  latitude, the longitude, the texture rotation and the tilt: two settings records that
  agree on these four fields give the same position and the same quaternion, whatever
  their time of day, surface-view height, rotation, tilt and field of view are.
\<close>

theorem marker_frame:
  assumes "latitude s = latitude s'" and "longitude s = longitude s'"
    and "textureRotation s = textureRotation s'" and "earthTilt s = earthTilt s'"
  shows "position (updateLocationMarker s) = position (updateLocationMarker s')
       \<and> quaternion (updateLocationMarker s) = quaternion (updateLocationMarker s')"
  using assms
  by (simp add: updateLocationMarker_def surfacePoint_def spherePoint_def rotationMatrix_def)

theorem marker_frame_witness:
  "position (updateLocationMarker initialSettings)
     = position (updateLocationMarker
         (initialSettings\<lparr> timeOfDay := 3, pipHeight := 5, pipRotation := 1, pipTilt := 10, pipFov := 20 \<rparr>))
   \<and> quaternion (updateLocationMarker initialSettings)
     = quaternion (updateLocationMarker
         (initialSettings\<lparr> timeOfDay := 3, pipHeight := 5, pipRotation := 1, pipTilt := 10, pipFov := 20 \<rparr>))"
  using marker_frame [of initialSettings
      "initialSettings\<lparr> timeOfDay := 3, pipHeight := 5, pipRotation := 1, pipTilt := 10, pipFov := 20 \<rparr>"]
  by simp

section \<open>The angle functions\<close>

lemma atan2_polar:
  assumes "0 < r" and "- pi < t" and "t \<le> pi"
  shows "atan2 (r * sin t) (r * cos t) = t"
proof -
  have q: "r * sin t / (r * cos t) = tan t"
    using assms(1) by (simp add: tan_def)
  consider (mid) "- (pi / 2) < t" "t < pi / 2"
    | (up) "t = pi / 2" | (down) "t = - (pi / 2)"
    | (left) "pi / 2 < t" | (right) "t < - (pi / 2)"
    by linarith
  then show ?thesis
  proof cases
    case mid
    then have "0 < cos t" by (rule cos_gt_zero_pi)
    then have "0 < r * cos t" using assms(1) by simp
    moreover have "arctan (tan t) = t" using mid by (rule arctan_tan)
    ultimately show ?thesis using q by (simp add: atan2_def)
  next
    case up
    show ?thesis unfolding up using assms(1) by (simp add: atan2_def)
  next
    case down
    show ?thesis unfolding down using assms(1) by (simp add: atan2_def)
  next
    case left
    have "0 < cos (t - pi)" using left assms(3) by (intro cos_gt_zero_pi) auto
    then have c: "r * cos t < 0" using assms(1) by (simp add: mult_pos_neg)
    have "0 \<le> sin t" using left assms(3) pi_gt_zero by (intro sin_ge_zero) linarith+
    then have s: "0 \<le> r * sin t" using assms(1) by simp
    have "tan (t - pi) = tan t" using tan_periodic_pi [of "t - pi"] by simp
    moreover have "arctan (tan (t - pi)) = t - pi"
      using left assms(3) by (intro arctan_tan) auto
    ultimately have "arctan (tan t) = t - pi" by simp
    with c s q show ?thesis by (simp add: atan2_def)
  next
    case right
    have "0 < cos (t + pi)" using right assms(2) by (intro cos_gt_zero_pi) auto
    then have c: "r * cos t < 0" using assms(1) by (simp add: mult_pos_neg)
    have "0 < sin (t + pi)" using right assms(2) by (intro sin_gt_zero) auto
    then have s: "r * sin t < 0" using assms(1) by (simp add: mult_pos_neg)
    have "arctan (tan (t + pi)) = t + pi"
      using right assms(2) by (intro arctan_tan) auto
    then have "arctan (tan t) = t + pi" by (simp add: tan_periodic_pi)
    with c s q show ?thesis by (simp add: atan2_def)
  qed
qed

lemma atan2_range: "- pi < atan2 b a \<and> atan2 b a \<le> pi"
proof -
  have l: "- (pi / 2) < arctan (b / a)" and u: "arctan (b / a) < pi / 2"
    by (rule arctan_lbound, rule arctan_ubound)
  have neg: "a < 0 \<Longrightarrow> 0 \<le> b \<Longrightarrow> arctan (b / a) \<le> 0"
    by (simp add: divide_nonneg_neg)
  have pos: "a < 0 \<Longrightarrow> b < 0 \<Longrightarrow> 0 < arctan (b / a)"
    by (simp add: divide_neg_neg)
  show ?thesis
    using l u neg pos pi_gt_zero by (auto simp: atan2_def)
qed

lemma radToDeg_degToRad: "radToDeg (degToRad d) = d"
  by (simp add: radToDeg_def degToRad_def)

section \<open>Round trip\<close>

lemma pick_scaled_surfacePoint:
  assumes k: "0 < k"
    and lat: "- 90 < latitude s'" "latitude s' < 90"
    and lon: "- 180 < longitude s'" "longitude s' \<le> 180"
    and same: "textureRotation s' = textureRotation s" "earthTilt s' = earthTilt s"
  shows "pickGeoCoordinate s (multiplyScalar (surfacePoint s') k) = (latitude s', longitude s')"
proof -
  define p where "p = degToRad (90 - latitude s')"
  define t where "t = degToRad (longitude s')"
  define u where "u = untiltedPoint s (multiplyScalar (surfacePoint s') k)"
  have u: "u = multiplyScalar (spherePoint s') k"
    by (simp add: u_def untiltedPoint_scale surfacePoint_def untilted_rotated [OF same])
  have p_range: "0 < p" "p < pi"
  proof -
    have "0 < (90 - latitude s') * (pi / 180)"
      using lat(2) pi_gt_zero by simp
    then show "0 < p" by (simp add: p_def degToRad_def)
    have "(90 - latitude s') * (pi / 180) < 180 * (pi / 180)"
      using lat(1) pi_gt_zero by (intro mult_strict_right_mono) simp_all
    then show "p < pi" by (simp add: p_def degToRad_def)
  qed
  have t_range: "- pi < t" "t \<le> pi"
  proof -
    have "(- 180) * (pi / 180) < longitude s' * (pi / 180)"
      using lon(1) pi_gt_zero by (intro mult_strict_right_mono) simp_all
    then show "- pi < t" by (simp add: t_def degToRad_def)
    have "longitude s' * (pi / 180) \<le> 180 * (pi / 180)"
      using lon(2) pi_gt_zero by (intro mult_right_mono) simp_all
    then show "t \<le> pi" by (simp add: t_def degToRad_def)
  qed
  have sp: "0 < sin p" using p_range by (rule sin_gt_zero)
  have radius: "vlength u = k * EARTH_RADIUS"
    using k by (simp add: u vlength_multiplyScalar vlength_spherePoint)
  have uy: "vy u = EARTH_RADIUS * cos p * k"
    by (simp add: u spherePoint_def multiplyScalar_def Let_def p_def)
  have ux: "vx u = (EARTH_RADIUS * sin p * k) * cos t"
    by (simp add: u spherePoint_def multiplyScalar_def Let_def p_def t_def)
  have uz: "vz u = (EARTH_RADIUS * sin p * k) * sin t"
    by (simp add: u spherePoint_def multiplyScalar_def Let_def p_def t_def)
  have ratio: "vy u / vlength u = cos p"
    using k EARTH_RADIUS_pos by (simp add: uy radius)
  have "max (- 1) (min 1 (cos p)) = cos p"
    using cos_le_one [of p] cos_ge_minus_one [of p] by simp
  then have "arccos (max (- 1) (min 1 (vy u / vlength u))) = p"
    using p_range by (simp add: ratio arccos_cos)
  then have la: "90 - radToDeg (arccos (max (- 1) (min 1 (vy u / vlength u)))) = latitude s'"
    by (simp add: p_def radToDeg_degToRad)
  have "0 < EARTH_RADIUS * sin p * k"
    using k sp EARTH_RADIUS_pos by simp
  then have "atan2 (vz u) (vx u) = t"
    unfolding ux uz using t_range by (rule atan2_polar)
  then have lo: "radToDeg (atan2 (vz u) (vx u)) = longitude s'"
    by (simp add: t_def radToDeg_degToRad)
  show ?thesis
    using la lo by (simp add: pickGeoCoordinate_def Let_def u_def)
qed



section \<open>Binary64 rounding\<close>

lemma rne_of_int: "rne (of_int n) = n"
  by (simp add: rne_def)

lemma rne_eqI:
  assumes "of_int n - 1 / 2 < x" and "x < of_int n + 1 / 2"
  shows "rne x = n"
proof (cases "of_int n \<le> x")
  case True
  then have "\<lfloor>x\<rfloor> = n" using assms(2) by (intro floor_unique) auto
  then show ?thesis using assms(2) by (simp add: rne_def)
next
  case False
  then have f: "\<lfloor>x\<rfloor> = n - 1" using assms(1) by (intro floor_unique) auto
  have "1 / 2 < x - of_int (n - 1)" using assms(1) by simp
  then show ?thesis using f by (simp add: rne_def)
qed

lemma rne_floor_cases: "rne x = \<lfloor>x\<rfloor> \<or> rne x = \<lfloor>x\<rfloor> + 1"
  by (simp add: rne_def Let_def)

lemma rne_mono:
  assumes "x \<le> y"
  shows "rne x \<le> rne y"
proof (cases "\<lfloor>x\<rfloor> < \<lfloor>y\<rfloor>")
  case True
  then show ?thesis
    using rne_floor_cases [of x] rne_floor_cases [of y] by linarith
next
  case False
  then have eq: "\<lfloor>x\<rfloor> = \<lfloor>y\<rfloor>"
    using floor_mono [OF assms] by linarith
  then show ?thesis
    using assms by (auto simp: rne_def Let_def)
qed

lemma rne_ge:
  assumes "of_int n \<le> x"
  shows "n \<le> rne x"
  using rne_mono [OF assms] by (simp add: rne_of_int)

lemma rne_le:
  assumes "x \<le> of_int n"
  shows "rne x \<le> n"
  using rne_mono [OF assms] by (simp add: rne_of_int)

lemma binade_floor_log:
  assumes "0 < v"
  shows "2 powr of_int \<lfloor>log 2 v\<rfloor> \<le> v" and "v < 2 powr (of_int \<lfloor>log 2 v\<rfloor> + 1)"
proof -
  have v: "2 powr (log 2 v) = v" using assms by simp
  have "2 powr of_int \<lfloor>log 2 v\<rfloor> \<le> 2 powr (log 2 v)"
    by (intro powr_mono) simp_all
  then show "2 powr of_int \<lfloor>log 2 v\<rfloor> \<le> v" by (simp only: v)
  have "log 2 v < of_int \<lfloor>log 2 v\<rfloor> + 1" by linarith
  then have "2 powr (log 2 v) < 2 powr (of_int \<lfloor>log 2 v\<rfloor> + 1)"
    by (intro powr_less_mono) simp_all
  then show "v < 2 powr (of_int \<lfloor>log 2 v\<rfloor> + 1)" by (simp only: v)
qed

lemma floor_log_binade:
  assumes "2 powr of_int e \<le> v" and "v < 2 powr (of_int e + 1)"
  shows "\<lfloor>log 2 v\<rfloor> = e"
proof -
  have pos: "0 < v" using assms(1) powr_gt_zero [of 2 "of_int e"] by linarith
  have "of_int e \<le> log 2 v"
    using assms(1) pos by (simp add: le_log_iff)
  moreover have "log 2 v < of_int e + 1"
    using assms(2) pos by (simp add: log_less_iff)
  ultimately show ?thesis by (intro floor_unique) auto
qed

lemma round64_eval:
  assumes "2 powr of_int e \<le> \<bar>v\<bar>" and "\<bar>v\<bar> < 2 powr (of_int e + 1)"
  shows "round64 v = sgn v * (of_int (rne (\<bar>v\<bar> / 2 powr (of_int e - 52))) * 2 powr (of_int e - 52))"
proof -
  have "0 < \<bar>v\<bar>" using assms(1) powr_gt_zero [of 2 "of_int e"] by linarith
  then have nz: "v \<noteq> 0" by simp
  have "ulp64 v = 2 powr (of_int e - 52)"
    by (simp add: ulp64_def floor_log_binade [OF assms])
  then show ?thesis using nz by (simp add: round64_def)
qed

lemma round64_minus: "round64 (- v) = - round64 v"
  by (simp add: round64_def ulp64_def sgn_minus)

lemma round64_abs: "\<bar>round64 v\<bar> = round64 \<bar>v\<bar>"
proof (cases "v = 0")
  case True
  then show ?thesis by (simp add: round64_def)
next
  case False
  have u: "0 < ulp64 v" by (simp add: ulp64_def)
  have "0 \<le> \<bar>v\<bar> / ulp64 v" using u by simp
  then have n: "0 \<le> rne (\<bar>v\<bar> / ulp64 v)" using rne_ge [of 0] by simp
  have same: "ulp64 \<bar>v\<bar> = ulp64 v" by (simp add: ulp64_def)
  have "\<bar>round64 v\<bar> = of_int (rne (\<bar>v\<bar> / ulp64 v)) * ulp64 v"
    using False n u by (simp add: round64_def abs_mult abs_sgn_eq)
  also have "\<dots> = round64 \<bar>v\<bar>"
    using False by (simp add: round64_def same)
  finally show ?thesis .
qed

lemma significand_range:
  assumes "0 < v"
  shows "2 ^ 52 \<le> v / ulp64 v" and "v / ulp64 v < 2 ^ 53"
proof -
  let ?e = "of_int \<lfloor>log 2 v\<rfloor> :: real"
  have u: "ulp64 v = 2 powr ?e / 2 ^ 52"
    using assms by (simp add: ulp64_def powr_diff)
  have p: "0 < 2 powr ?e" by simp
  from binade_floor_log [OF assms]
  have a: "2 powr ?e \<le> v" and b: "v < 2 powr ?e * 2"
    by (simp_all add: powr_add)
  show "2 ^ 52 \<le> v / ulp64 v"
    using a p by (simp add: u field_simps)
  show "v / ulp64 v < 2 ^ 53"
    using b p by (simp add: u field_simps)
qed

lemma round64_binade:
  assumes "0 < v"
  shows "2 powr of_int \<lfloor>log 2 v\<rfloor> \<le> round64 v"
    and "round64 v \<le> 2 powr (of_int \<lfloor>log 2 v\<rfloor> + 1)"
proof -
  let ?e = "of_int \<lfloor>log 2 v\<rfloor> :: real"
  have u: "ulp64 v = 2 powr ?e / 2 ^ 52"
    using assms by (simp add: ulp64_def powr_diff)
  have up: "0 < ulp64 v" by (simp add: ulp64_def)
  have r: "round64 v = of_int (rne (v / ulp64 v)) * ulp64 v"
    using assms by (simp add: round64_def)
  have "(2 ^ 52 :: int) \<le> rne (v / ulp64 v)"
    using significand_range(1) [OF assms] by (intro rne_ge) simp
  then have "(2 ^ 52 :: real) \<le> of_int (rne (v / ulp64 v))"
    by (metis of_int_le_iff of_int_numeral of_int_power)
  then have "2 ^ 52 * ulp64 v \<le> of_int (rne (v / ulp64 v)) * ulp64 v"
    using up by (intro mult_right_mono) simp_all
  then show "2 powr ?e \<le> round64 v" by (simp add: r u)
  have "rne (v / ulp64 v) \<le> (2 ^ 53 :: int)"
    using significand_range(2) [OF assms] by (intro rne_le) simp
  then have "of_int (rne (v / ulp64 v)) \<le> (2 ^ 53 :: real)"
    by (metis of_int_le_iff of_int_numeral of_int_power)
  then have "of_int (rne (v / ulp64 v)) * ulp64 v \<le> 2 ^ 53 * ulp64 v"
    using up by (intro mult_right_mono) simp_all
  then show "round64 v \<le> 2 powr (?e + 1)" by (simp add: r u powr_add)
qed

lemma round64_mono_pos:
  assumes "0 < x" and "x \<le> y"
  shows "round64 x \<le> round64 y"
proof -
  have y: "0 < y" using assms by simp
  have le: "\<lfloor>log 2 x\<rfloor> \<le> \<lfloor>log 2 y\<rfloor>"
    using assms by (intro floor_mono) simp
  show ?thesis
  proof (cases "\<lfloor>log 2 x\<rfloor> = \<lfloor>log 2 y\<rfloor>")
    case True
    then have u: "ulp64 x = ulp64 y" using assms y by (simp add: ulp64_def)
    have up: "0 < ulp64 y" by (simp add: ulp64_def)
    have "x / ulp64 y \<le> y / ulp64 y" using assms(2) up by (simp add: divide_right_mono)
    then have "rne (x / ulp64 y) \<le> rne (y / ulp64 y)" by (rule rne_mono)
    then have "of_int (rne (x / ulp64 y)) * ulp64 y \<le> of_int (rne (y / ulp64 y)) * ulp64 y"
      using up by (intro mult_right_mono) simp_all
    then show ?thesis using assms y by (simp add: round64_def u)
  next
    case False
    then have "\<lfloor>log 2 x\<rfloor> + 1 \<le> \<lfloor>log 2 y\<rfloor>" using le by simp
    then have "of_int \<lfloor>log 2 x\<rfloor> + 1 \<le> (of_int \<lfloor>log 2 y\<rfloor> :: real)" by linarith
    then have "2 powr (of_int \<lfloor>log 2 x\<rfloor> + 1) \<le> 2 powr (of_int \<lfloor>log 2 y\<rfloor> :: real)"
      by (intro powr_mono) simp_all
    then show ?thesis
      using round64_binade(2) [OF assms(1)] round64_binade(1) [OF y] by linarith
  qed
qed

lemma round64_abs_le:
  assumes "\<bar>x\<bar> \<le> b"
  shows "\<bar>round64 x\<bar> \<le> round64 b"
proof (cases "x = 0")
  case True
  show ?thesis
  proof (cases "b = 0")
    case True
    with \<open>x = 0\<close> show ?thesis by (simp add: round64_def)
  next
    case False
    then have "0 < b" using assms True by simp
    from round64_binade(1) [OF this] have "0 \<le> round64 b"
      using powr_gt_zero [of 2 "of_int \<lfloor>log 2 b\<rfloor>"] by linarith
    with True show ?thesis by (simp add: round64_def)
  qed
next
  case False
  then have "0 < \<bar>x\<bar>" by simp
  from round64_mono_pos [OF this assms] show ?thesis by (simp add: round64_abs)
qed

lemma arctan_enclosure:
  assumes "0 < x" and "x \<le> 1"
  shows "(\<Sum>i<2 * n. (- 1) ^ i * (1 / real (i * 2 + 1) * x ^ (i * 2 + 1))) \<le> arctan x"
    and "arctan x \<le> (\<Sum>i<2 * n + 1. (- 1) ^ i * (1 / real (i * 2 + 1) * x ^ (i * 2 + 1)))"
proof -
  have ab: "\<bar>x\<bar> \<le> 1" using assms by simp
  have pos: "0 < 1 / real (0 * 2 + 1) * x ^ (0 * 2 + 1)" using assms by simp
  from summable_Leibniz(2) [OF zeroseq_arctan_series [OF ab] monoseq_arctan_series [OF ab]] pos
  have "(\<Sum>i. (- 1) ^ i * (1 / real (i * 2 + 1) * x ^ (i * 2 + 1)))
      \<in> {\<Sum>i<2 * n. (- 1) ^ i * (1 / real (i * 2 + 1) * x ^ (i * 2 + 1)) ..
         \<Sum>i<2 * n + 1. (- 1) ^ i * (1 / real (i * 2 + 1) * x ^ (i * 2 + 1))}"
    by blast
  then show "(\<Sum>i<2 * n. (- 1) ^ i * (1 / real (i * 2 + 1) * x ^ (i * 2 + 1))) \<le> arctan x"
    and "arctan x \<le> (\<Sum>i<2 * n + 1. (- 1) ^ i * (1 / real (i * 2 + 1) * x ^ (i * 2 + 1)))"
    by (simp_all add: arctan_series [OF ab])
qed

lemma arctan_fifth_bounds:
  "0.1973955598498807583700497651947902934475 \<le> arctan (1 / 5)"
  "arctan (1 / 5) \<le> 0.1973955598498807583700497651947902934476"
proof -
  have l: "(\<Sum>i<2 * 14. (- 1) ^ i * (1 / real (i * 2 + 1) * (1 / 5) ^ (i * 2 + 1))) \<le> arctan (1 / 5)"
    by (rule arctan_enclosure) simp_all
  have u: "arctan (1 / 5) \<le> (\<Sum>i<2 * 14 + 1. (- 1) ^ i * (1 / real (i * 2 + 1) * (1 / 5) ^ (i * 2 + 1)))"
    by (rule arctan_enclosure) simp_all
  show "0.1973955598498807583700497651947902934475 \<le> arctan (1 / 5)"
    by (rule order_trans [OF _ l]) (simp add: lessThan_nat_numeral lessThan_Suc power_one_over)
  show "arctan (1 / 5) \<le> 0.1973955598498807583700497651947902934476"
    by (rule order_trans [OF u]) (simp add: lessThan_nat_numeral lessThan_Suc power_one_over)
qed

lemma arctan_239_bounds:
  "0.0041840760020747238645382149592854527410 \<le> arctan (1 / 239)"
  "arctan (1 / 239) \<le> 0.0041840760020747238645382149592854527411"
proof -
  have l: "(\<Sum>i<2 * 4. (- 1) ^ i * (1 / real (i * 2 + 1) * (1 / 239) ^ (i * 2 + 1))) \<le> arctan (1 / 239)"
    by (rule arctan_enclosure) simp_all
  have u: "arctan (1 / 239) \<le> (\<Sum>i<2 * 4 + 1. (- 1) ^ i * (1 / real (i * 2 + 1) * (1 / 239) ^ (i * 2 + 1)))"
    by (rule arctan_enclosure) simp_all
  show "0.0041840760020747238645382149592854527410 \<le> arctan (1 / 239)"
    by (rule order_trans [OF _ l]) (simp add: lessThan_nat_numeral lessThan_Suc power_one_over)
  show "arctan (1 / 239) \<le> 0.0041840760020747238645382149592854527411"
    by (rule order_trans [OF u]) (simp add: lessThan_nat_numeral lessThan_Suc power_one_over)
qed

lemma pi_bounds:
  "3.141592653589793238462643383279502884 < pi"
  "pi < 3.141592653589793238462643383279502885"
proof -
  have p: "pi = 16 * arctan (1 / 5) - 4 * arctan (1 / 239)"
    using machin by simp
  show "3.141592653589793238462643383279502884 < pi"
    unfolding p using arctan_fifth_bounds(1) arctan_239_bounds(2) by simp
  show "pi < 3.141592653589793238462643383279502885"
    unfolding p using arctan_fifth_bounds(2) arctan_239_bounds(1) by simp
qed

lemma round64_zero [simp]: "round64 0 = 0"
  by (simp add: round64_def)

lemma round64_evalI:
  assumes "2 powr of_int e \<le> \<bar>v\<bar>" and "\<bar>v\<bar> < 2 powr (of_int e + 1)"
    and "of_int n - 1 / 2 < \<bar>v\<bar> / 2 powr (of_int e - 52)"
    and "\<bar>v\<bar> / 2 powr (of_int e - 52) < of_int n + 1 / 2"
  shows "round64 v = sgn v * (of_int n * 2 powr (of_int e - 52))"
  using round64_eval [OF assms(1,2)] rne_eqI [OF assms(3,4)] by simp

lemma two_powr_neg_numeral: "(2::real) powr (- numeral k) = 1 / 2 ^ numeral k"
  by (simp add: powr_minus_divide)

lemma round64_one [simp]: "round64 1 = 1"
  using round64_evalI [of 0 1 "2 ^ 52"] by (simp add: two_powr_neg_numeral)

lemma round64_6371 [simp]: "round64 6371 = 6371"
  using round64_evalI [of 12 6371 7004988580560896] by (simp add: two_powr_neg_numeral)

lemma round64_small [simp]: "round64 (1 / 8796093022208) = 1 / 8796093022208"
  using round64_evalI [of "- 43" "1 / 8796093022208" "2 ^ 52"] by (simp add: two_powr_neg_numeral)

lemma PI64_value: "PI64 = 884279719003555 / 281474976710656"
proof -
  have "round64 pi = sgn pi * (of_int 7074237752028440 * 2 powr (of_int 1 - 52))"
    using pi_bounds by (intro round64_evalI) (simp_all add: two_powr_neg_numeral)
  then show ?thesis by (simp add: PI64_def two_powr_neg_numeral)
qed

lemma RAD2DEG64_value: "RAD2DEG64 = 1007958012753983 / 17592186044416"
proof -
  have "round64 (180 / PI64) = sgn (180 / PI64) * (of_int 8063664102031864 * 2 powr (of_int 5 - 52))"
    by (intro round64_evalI) (simp_all add: PI64_value two_powr_neg_numeral)
  then show ?thesis by (simp add: RAD2DEG64_def PI64_value two_powr_neg_numeral)
qed

lemma radToDeg64_PI64: "round64 (PI64 * RAD2DEG64) = 180"
proof -
  have "round64 (PI64 * RAD2DEG64)
        = sgn (PI64 * RAD2DEG64) * (of_int 6333186975989760 * 2 powr (of_int 7 - 52))"
    by (intro round64_evalI) (simp_all add: PI64_value RAD2DEG64_value two_powr_neg_numeral)
  then show ?thesis by (simp add: PI64_value RAD2DEG64_value two_powr_neg_numeral)
qed

lemma round64_uminus [simp]: "round64 (- v) = - round64 v"
  by (rule round64_minus)

lemma untiltedPoint64_identity:
  assumes "textureRotation s = 0" and "earthTilt s = 0"
  shows "untiltedPoint64 s (Vector3 (- 6371) 0 (- (1 / 8796093022208))) = Vector3 (- 6371) 0 (- (1 / 8796093022208))"
  using assms
  by (simp add: untiltedPoint64_def degToRad64_def makeRotationZ64_def makeRotationY64_def
      applyMatrix4_64_def Let_def)

lemma atan2_abs_le_pi: "\<bar>atan2 b a\<bar> \<le> pi"
  using atan2_range [of b a] by (simp add: abs_le_iff)

lemma RAD2DEG64_pos: "0 < RAD2DEG64"
  by (simp add: RAD2DEG64_value)

lemma radToDeg64_atan2_range: "\<bar>radToDeg64 (round64 (atan2 b a))\<bar> \<le> 180"
proof -
  have "\<bar>round64 (atan2 b a)\<bar> \<le> PI64"
    unfolding PI64_def by (rule round64_abs_le) (rule atan2_abs_le_pi)
  then have "\<bar>round64 (atan2 b a) * RAD2DEG64\<bar> \<le> PI64 * RAD2DEG64"
    using RAD2DEG64_pos by (simp add: abs_mult mult_right_mono)
  then have "\<bar>round64 (round64 (atan2 b a) * RAD2DEG64)\<bar> \<le> round64 (PI64 * RAD2DEG64)"
    by (rule round64_abs_le)
  then show ?thesis by (simp add: radToDeg64_def radToDeg64_PI64)
qed

text \<open>Enclosures of the sine and the cosine by their Maclaurin polynomials, and the
  rounding of a value known between two bounds.\<close>

lemma sin_enclosure:
  "(\<Sum>m<n. sin_coeff m * x ^ m) - \<bar>x\<bar> ^ n / fact n \<le> sin x
 \<and> sin x \<le> (\<Sum>m<n. sin_coeff m * x ^ m) + \<bar>x\<bar> ^ n / fact n"
proof -
  define S where "S = (\<Sum>m<n. sin_coeff m * x ^ m)"
  define E where "E = \<bar>x\<bar> ^ n / fact n"
  have "\<bar>sin x - S\<bar> \<le> inverse (fact n) * \<bar>x\<bar> ^ n"
    unfolding S_def by (rule Maclaurin_sin_bound)
  also have "\<dots> = E" by (simp add: E_def field_simps)
  finally have "S - E \<le> sin x \<and> sin x \<le> S + E" by linarith
  then show ?thesis by (simp only: S_def E_def)
qed

lemma cos_enclosure:
  "(\<Sum>m<n. cos_coeff m * x ^ m) - \<bar>x\<bar> ^ n / fact n \<le> cos x
 \<and> cos x \<le> (\<Sum>m<n. cos_coeff m * x ^ m) + \<bar>x\<bar> ^ n / fact n"
proof -
  define S where "S = (\<Sum>m<n. cos_coeff m * x ^ m)"
  define E where "E = \<bar>x\<bar> ^ n / fact n"
  define c where "c = (\<lambda>t. cos (t + 1 / 2 * real n * pi))"
  obtain t where "cos x = (\<Sum>m<n. cos_coeff m * x ^ m) + (cos (t + 1 / 2 * real n * pi) / fact n) * x ^ n"
    using Maclaurin_cos_expansion [of x n] by blast
  then have t: "cos x - S = c t * (x ^ n / fact n)"
    by (simp add: S_def c_def)
  have c1: "\<bar>c t\<bar> \<le> 1" by (simp add: c_def)
  have e0: "0 \<le> E" by (simp add: E_def)
  have "\<bar>c t * (x ^ n / fact n)\<bar> = \<bar>c t\<bar> * E"
    by (simp add: E_def abs_mult power_abs)
  also have "\<dots> \<le> 1 * E"
    using c1 e0 by (rule mult_right_mono)
  finally have "\<bar>cos x - S\<bar> \<le> E" by (simp only: t mult_1)
  then have "S - E \<le> cos x \<and> cos x \<le> S + E" by linarith
  then show ?thesis by (simp only: S_def E_def)
qed

lemma round64_enclosed:
  assumes enc: "lo \<le> v \<and> v \<le> hi"
    and lo: "2 powr of_int e \<le> lo" and hi: "hi < 2 powr (of_int e + 1)"
    and nlo: "of_int n - 1 / 2 < lo / 2 powr (of_int e - 52)"
    and nhi: "hi / 2 powr (of_int e - 52) < of_int n + 1 / 2"
    and res: "r = of_int n * 2 powr (of_int e - 52)"
  shows "round64 v = r"
proof -
  have p: "0 < (2::real) powr of_int e" by simp
  have pos: "0 < v" using enc lo p by linarith
  have u: "0 < (2::real) powr (of_int e - 52)" by simp
  have a: "2 powr of_int e \<le> \<bar>v\<bar>" using enc lo pos by simp
  have b: "\<bar>v\<bar> < 2 powr (of_int e + 1)" using enc hi pos by simp
  have "lo / 2 powr (of_int e - 52) \<le> v / 2 powr (of_int e - 52)"
    using enc u by (simp add: divide_right_mono)
  then have c: "of_int n - 1 / 2 < \<bar>v\<bar> / 2 powr (of_int e - 52)"
    using nlo pos by simp
  have "v / 2 powr (of_int e - 52) \<le> hi / 2 powr (of_int e - 52)"
    using enc u by (simp add: divide_right_mono)
  then have d: "\<bar>v\<bar> / 2 powr (of_int e - 52) < of_int n + 1 / 2"
    using nhi pos by simp
  from round64_evalI [OF a b c d] pos show ?thesis by (simp add: res)
qed


lemma power_enclosure_step:
  fixes X :: real
  assumes a: "l \<le> X ^ k \<and> X ^ k \<le> u" and b: "l2 \<le> X ^ 2 \<and> X ^ 2 \<le> u2"
    and "0 \<le> l" and "0 \<le> l2" and lo: "l' \<le> l * l2" and hi: "u * u2 \<le> u'" and m: "m = k + 2"
  shows "l' \<le> X ^ m \<and> X ^ m \<le> u'"
proof -
  have e: "X ^ m = X ^ k * X ^ 2" by (simp add: m power_add power2_eq_square)
  have "l * l2 \<le> X ^ k * X ^ 2"
    using a b assms(3,4) by (intro mult_mono) simp_all
  moreover have "X ^ k * X ^ 2 \<le> u * u2"
    using a b assms(3,4) by (intro mult_mono) simp_all
  ultimately show ?thesis using lo hi by (simp add: e)
qed


text \<open>\<open>Math.PI\<close> lies below \<open>\<pi>\<close>; its cosine rounds to -1 and its sine to the binary64
  number next to \<open>1.2246 \<sdot> 10\<^sup>-\<^sup>1\<^sup>6\<close>. An angle just above \<open>-\<pi>\<close> rounds to \<open>-Math.PI\<close>.\<close>

lemma pi_minus_PI64:
  "12246467991473 / 10 ^ 29 < pi - 884279719003555 / 281474976710656"
  "pi - 884279719003555 / 281474976710656 < 12246467991474 / 10 ^ 29"
  using pi_bounds by simp_all

lemma round64_cos_PI64 [simp]:
  "round64 (cos (884279719003555 / 281474976710656)) = - 1"
proof -
  define d where "d = pi - 884279719003555 / 281474976710656"
  have d: "0 < d" "d < 2 / 10 ^ 16"
    using pi_minus_PI64 by (simp_all add: d_def)
  have c: "cos (884279719003555 / 281474976710656) = - cos d"
    using cos_pi_minus [of d] by (simp add: d_def)
  have "d ^ 2 \<le> (2 / 10 ^ 16) ^ 2"
    using d by (intro power_mono) simp_all
  then have d2: "d ^ 2 \<le> 4 / 10 ^ 32" by (simp add: power_divide)
  have "1 - d ^ 2 / 2 \<le> cos d"
    using cos_enclosure [where n = 2 and x = d]
    by (simp add: cos_coeff_def lessThan_nat_numeral lessThan_Suc)
  then have lo: "1 - 2 / 10 ^ 32 \<le> cos d" using d2 by simp
  have "round64 (cos d) = 1"
  proof (cases "cos d = 1")
    case True
    then show ?thesis by simp
  next
    case False
    moreover have "cos d \<le> 1" by (rule cos_le_one)
    ultimately have hi: "cos d < 1" by linarith
    have "round64 (cos d) = sgn (cos d) * (of_int (2 ^ 53) * 2 powr (of_int (- 1) - 52))"
      using lo hi by (intro round64_evalI) (simp_all add: two_powr_neg_numeral)
    moreover have "sgn (cos d) = 1" using lo by (simp add: sgn_if)
    ultimately show ?thesis by (simp add: two_powr_neg_numeral)
  qed
  then show ?thesis by (simp add: c)
qed

lemma round64_sin_PI64 [simp]:
  "round64 (sin (884279719003555 / 281474976710656)) = 4967757600021511 / 40564819207303340847894502572032"
proof -
  define d where "d = pi - 884279719003555 / 281474976710656"
  have d: "12246467991473 / 10 ^ 29 < d" "d < 12246467991474 / 10 ^ 29"
    using pi_minus_PI64 by (simp_all add: d_def)
  have dprecise: "3.141592653589793238462643383279502884 - 884279719003555 / 281474976710656 < d"
      "d < 3.141592653589793238462643383279502885 - 884279719003555 / 281474976710656"
    using pi_bounds by (simp_all add: d_def)
  have s: "sin (884279719003555 / 281474976710656) = sin d"
    using sin_pi_minus [of d] by (simp add: d_def)
  have "d ^ 3 \<le> (2 / 10 ^ 16) ^ 3"
    using d by (intro power_mono) simp_all
  then have d3: "d ^ 3 \<le> 8 / 10 ^ 48" by (simp add: power_divide)
  have "d - \<bar>d\<bar> ^ 3 / 6 \<le> sin d \<and> sin d \<le> d + \<bar>d\<bar> ^ 3 / 6"
    using sin_enclosure [where n = 3 and x = d]
    by (simp add: sin_coeff_def lessThan_nat_numeral lessThan_Suc fact_numeral)
  then have enc: "367394039744205953167228271484371 / 3000000000000000000000000000000000000000000000000 \<le> sin d \<and> sin d \<le> 367394039744205953170228271484379 / 3000000000000000000000000000000000000000000000000"
    using d d3 dprecise by simp
  have "round64 (sin d) = 4967757600021511 / 40564819207303340847894502572032"
    by (rule round64_enclosed [OF enc, where e = "-53" and n = 4967757600021511])
       (simp_all add: two_powr_neg_numeral)
  then show ?thesis by (simp only: s)
qed

lemma round64_atan2_near_minus_pi:
  assumes "a < 0" and "b < 0" and "b / a \<le> 3 / 10 ^ 16"
  shows "round64 (atan2 b a) = - PI64"
proof -
  define t where "t = arctan (b / a)"
  have q: "0 < b / a" using assms(1,2) by (simp add: divide_neg_neg)
  have at: "atan2 b a = t - pi"
    using assms(1,2) by (simp add: atan2_def t_def)
  have pos: "0 < t" using q by (simp add: t_def)
  have "(3 :: real) / 10 ^ 16 \<le> 1" by simp
  with assms(3) have "b / a \<le> 1" by (rule order_trans)
  then have "arctan (b / a) \<le> b / a"
    using arctan_enclosure(2) [of "b / a" 0] q by simp
  then have le: "t \<le> 3 / 10 ^ 16"
    unfolding t_def using assms(3) by (rule order_trans)
  have ab: "\<bar>t - pi\<bar> = pi - t"
    using le pi_bounds(1) by simp
  have c1: "2 powr of_int 1 \<le> \<bar>t - pi\<bar>"
    unfolding ab using le pi_bounds(1) by simp
  have c2: "\<bar>t - pi\<bar> < 2 powr (of_int 1 + 1)"
    unfolding ab using pos pi_bounds(2) by simp
  have c3: "of_int 7074237752028440 - 1 / 2 < \<bar>t - pi\<bar> / 2 powr (of_int 1 - 52)"
    unfolding ab using le pi_bounds(1) by (simp add: two_powr_neg_numeral)
  have c4: "\<bar>t - pi\<bar> / 2 powr (of_int 1 - 52) < of_int 7074237752028440 + 1 / 2"
    unfolding ab using pos pi_bounds(2) by (simp add: two_powr_neg_numeral)
  have "sgn (t - pi) = - 1"
    using le pi_bounds(1) by (simp add: sgn_if)
  with round64_evalI [OF c1 c2 c3 c4] show ?thesis
    by (simp add: at PI64_value two_powr_neg_numeral)
qed


lemma round64_value_0 [simp]: "round64 120 = 120"
  using round64_evalI [of "6" "120" 8444249301319680] by (simp add: two_powr_neg_numeral)

lemma round64_value_1 [simp]: "round64 (75458536021636695 / 36028797018963968) = 4716158501352293 / 2251799813685248"
  using round64_evalI [of "1" "75458536021636695 / 36028797018963968" 4716158501352293] by (simp add: two_powr_neg_numeral)

lemma round64_value_2 [simp]: "round64 (226375608064910085 / 72057594037927936) = 884279719003555 / 281474976710656"
  using round64_evalI [of "1" "226375608064910085 / 72057594037927936" 7074237752028440] by (simp add: two_powr_neg_numeral)

lemma round64_value_3 [simp]: "round64 (49696752140170298273 / 9007199254740992) = 189578064499551 / 34359738368"
  using round64_evalI [of "12" "49696752140170298273 / 9007199254740992" 6066498063985632] by (simp add: two_powr_neg_numeral)

lemma round64_value_4 [simp]: "round64 (189578064499551 / 34359738368) = 189578064499551 / 34359738368"
  using round64_evalI [of "12" "189578064499551 / 34359738368" 6066498063985632] by (simp add: two_powr_neg_numeral)

lemma round64_value_5 [simp]: "round64 (941777870715012690583049841561 / 1393796574908163946345982392040522594123776) = 6691734247361671 / 9903520314283042199192993792"
  using round64_evalI [of "-41" "941777870715012690583049841561 / 1393796574908163946345982392040522594123776" 6691734247361671] by (simp add: two_powr_neg_numeral)

lemma round64_value_6 [simp]: "round64 (7003752412840285 / 9007199254740992) = 7003752412840285 / 9007199254740992"
  using round64_evalI [of "-1" "7003752412840285 / 9007199254740992" 7003752412840285] by (simp add: two_powr_neg_numeral)

lemma round64_value_7 [simp]: "round64 (5663664057325485 / 9007199254740992) = 5663664057325485 / 9007199254740992"
  using round64_evalI [of "-1" "5663664057325485 / 9007199254740992" 5663664057325485] by (simp add: two_powr_neg_numeral)

lemma round64_value_9 [simp]: "round64 (1327757826660321493095017212035 / 309485009821345068724781056) = 4717143392910549 / 1099511627776"
  using round64_evalI [of "12" "1327757826660321493095017212035 / 309485009821345068724781056" 4717143392910549] by (simp add: two_powr_neg_numeral)

lemma round64_value_10 [simp]: "round64 (4717143392910549 / 1099511627776) = 4717143392910549 / 1099511627776"
  using round64_evalI [of "12" "4717143392910549 / 1099511627776" 4717143392910549] by (simp add: two_powr_neg_numeral)

lemma round64_value_11 [simp]: "round64 (37899734737956302243661760485435 / 89202980794122492566142873090593446023921664) = 131491119166453 / 309485009821345068724781056"
  using round64_evalI [of "-42" "37899734737956302243661760485435 / 89202980794122492566142873090593446023921664" 8415431626652992] by (simp add: two_powr_neg_numeral)

lemma round64_value_12 [simp]: "round64 (1327757826660321473462943943691 / 309485009821345068724781056) = 4717143392910549 / 1099511627776"
  using round64_evalI [of "12" "1327757826660321473462943943691 / 309485009821345068724781056" 4717143392910549] by (simp add: two_powr_neg_numeral)

lemma round64_value_13 [simp]: "round64 (1073706469963439507662043357235 / 309485009821345068724781056) = 7629143325711421 / 2199023255552"
  using round64_evalI [of "11" "1073706469963439507662043357235 / 309485009821345068724781056" 7629143325711421] by (simp add: two_powr_neg_numeral)

lemma round64_value_14 [simp]: "round64 (7629143325711421 / 2199023255552) = 7629143325711421 / 2199023255552"
  using round64_evalI [of "11" "7629143325711421 / 2199023255552" 7629143325711421] by (simp add: two_powr_neg_numeral)

lemma round64_value_15 [simp]: "round64 (46867249881045271814644753716235 / 89202980794122492566142873090593446023921664) = 5203309991879709 / 9903520314283042199192993792"
  using round64_evalI [of "-41" "46867249881045271814644753716235 / 89202980794122492566142873090593446023921664" 5203309991879709] by (simp add: two_powr_neg_numeral)

lemma round64_value_16 [simp]: "round64 (34358607038830067414152737514525 / 9903520314283042199192993792) = 3814571662855711 / 1099511627776"
  using round64_evalI [of "11" "34358607038830067414152737514525 / 9903520314283042199192993792" 7629143325711422] by (simp add: two_powr_neg_numeral)

lemma round64_value_17 [simp]: "round64 (3814571662855711 / 1099511627776) = 3814571662855711 / 1099511627776"
  using round64_evalI [of "11" "3814571662855711 / 1099511627776" 7629143325711422] by (simp add: two_powr_neg_numeral)

lemma round64_value_18 [simp]: "round64 (33037704419810866094906028666465 / 9903520314283042199192993792) = 458490251595429 / 137438953472"
  using round64_evalI [of "11" "33037704419810866094906028666465 / 9903520314283042199192993792" 7335844025526864] by (simp add: two_powr_neg_numeral)

lemma round64_value_19 [simp]: "round64 (458490251595429 / 137438953472) = 458490251595429 / 137438953472"
  using round64_evalI [of "11" "458490251595429 / 137438953472" 7335844025526864] by (simp add: two_powr_neg_numeral)

lemma round64_value_20 [simp]: "round64 (21604452421008198225564118094835 / 9903520314283042199192993792) = 2398576051222201 / 1099511627776"
  using round64_evalI [of "11" "21604452421008198225564118094835 / 9903520314283042199192993792" 4797152102444402] by (simp add: two_powr_neg_numeral)

lemma round64_value_21 [simp]: "round64 (6066498063985633 / 1099511627776) = 6066498063985633 / 1099511627776"
  using round64_evalI [of "12" "6066498063985633 / 1099511627776" 6066498063985633] by (simp add: two_powr_neg_numeral)

lemma round64_value_22 [simp]: "round64 (26716315487677864404678783041265 / 9903520314283042199192993792) = 5932213717513927 / 2199023255552"
  using round64_evalI [of "11" "26716315487677864404678783041265 / 9903520314283042199192993792" 5932213717513927] by (simp add: two_powr_neg_numeral)

lemma round64_value_23 [simp]: "round64 (5932213717513927 / 2199023255552) = 5932213717513927 / 2199023255552"
  using round64_evalI [of "11" "5932213717513927 / 2199023255552" 5932213717513927] by (simp add: two_powr_neg_numeral)

lemma round64_value_24 [simp]: "round64 (26716315487677864073947643117635 / 9903520314283042199192993792) = 2966106858756963 / 1099511627776"
  using round64_evalI [of "11" "26716315487677864073947643117635 / 9903520314283042199192993792" 5932213717513926] by (simp add: two_powr_neg_numeral)

lemma round64_value_25 [simp]: "round64 (1 / 2199023255552) = 1 / 2199023255552"
  using round64_evalI [of "-41" "1 / 2199023255552" 4503599627370496] by (simp add: two_powr_neg_numeral)

lemma round64_sin_phi [simp]: "round64 (sin (4716158501352293 / 2251799813685248)) = 7800463371553963 / 9007199254740992"
proof -
  define X :: real where "X = 4716158501352293 / 2251799813685248"
  have xpos: "0 < X" by (simp add: X_def)
  have p2: "438649084492860286854169524787 / 100000000000000000000000000000 \<le> X ^ 2 \<and> X ^ 2 \<le> 4386490844928602868541695247871 / 1000000000000000000000000000000"
    by (simp add: X_def power2_eq_square)
  have p3: "1148380617788881850924639016851 / 125000000000000000000000000000 \<le> X ^ 3 \<and> X ^ 3 \<le> 9187044942311054807397112134809 / 1000000000000000000000000000000"
    by (simp add: X_def power3_eq_cube)
  have p5: "2518680533212191649967570905053 / 62500000000000000000000000000 \<le> X ^ 5 \<and> X ^ 5 \<le> 40298888531395066399481134480863 / 1000000000000000000000000000000"
    by (rule power_enclosure_step [OF p3 p2]) simp_all
  have p7: "2209633820047034109967394073281 / 12500000000000000000000000000 \<le> X ^ 7 \<and> X ^ 7 \<le> 176770705603762728797391525862587 / 1000000000000000000000000000000"
    by (rule power_enclosure_step [OF p5 p2]) simp_all
  have p9: "387701540891237243058003326009953 / 500000000000000000000000000000 \<le> X ^ 9 \<and> X ^ 9 \<le> 775403081782474486116006652020553 / 1000000000000000000000000000000"
    by (rule power_enclosure_step [OF p7 p2]) simp_all
  have p11: "3401298519368249059030744825457881 / 1000000000000000000000000000000 \<le> X ^ 11 \<and> X ^ 11 \<le> 680259703873649811806148965092299 / 200000000000000000000000000000"
    by (rule power_enclosure_step [OF p9 p2]) simp_all
  have p13: "14919764816078036723601954560254671 / 1000000000000000000000000000000 \<le> X ^ 13 \<and> X ^ 13 \<le> 7459882408039018361800977280136963 / 500000000000000000000000000000"
    by (rule power_enclosure_step [OF p11 p2]) simp_all
  have p15: "16361352943553547120938313873153689 / 250000000000000000000000000000 \<le> X ^ 15 \<and> X ^ 15 \<le> 32722705887107094241876627746357069 / 500000000000000000000000000000"
    by (rule power_enclosure_step [OF p13 p2]) simp_all
  have p17: "8971115612192910318290675949963761 / 31250000000000000000000000000 \<le> X ^ 17 \<and> X ^ 17 \<le> 287075699590173130185301630399341737 / 1000000000000000000000000000000"
    by (rule power_enclosure_step [OF p15 p2]) simp_all
  have p19: "314813732013442076515173590169086557 / 250000000000000000000000000000 \<le> X ^ 19 \<and> X ^ 19 \<le> 629627464026884153030347180339416313 / 500000000000000000000000000000"
    by (rule power_enclosure_step [OF p17 p2]) simp_all
  have p21: "5523710213339081152648620838988293981 / 1000000000000000000000000000000 \<le> X ^ 21 \<and> X ^ 21 \<le> 5523710213339081152648620839000459799 / 1000000000000000000000000000000"
    by (rule power_enclosure_step [OF p19 p2]) simp_all
  have p23: "24229704280850499292565871847460769023 / 1000000000000000000000000000000 \<le> X ^ 23 \<and> X ^ 23 \<le> 24229704280850499292565871847519657983 / 1000000000000000000000000000000"
    by (rule power_enclosure_step [OF p21 p2]) simp_all
  have p25: "106283376003278092578783440914304778953 / 1000000000000000000000000000000 \<le> X ^ 25 \<and> X ^ 25 \<le> 53141688001639046289391720457293662271 / 500000000000000000000000000000"
    by (rule power_enclosure_step [OF p23 p2]) simp_all
  have p1: "2094395102393195262635572362341 / 1000000000000000000000000000000 \<le> X \<and> X \<le> 1047197551196597631317786181171 / 500000000000000000000000000000" by (simp add: X_def)
  have enc: "866025403784438747938663799373 / 1000000000000000000000000000000 \<le> sin X \<and> sin X \<le> 866025403784438761642736622369 / 1000000000000000000000000000000"
    using sin_enclosure [where n = 25 and x = X] xpos p1 p3 p5 p7 p9 p11 p13 p15 p17 p19 p21 p23 p25
    by (simp add: sin_coeff_def lessThan_nat_numeral lessThan_Suc fact_numeral)
  have "round64 (sin X) = 7800463371553963 / 9007199254740992"
    by (rule round64_enclosed [OF enc, where e = "-1" and n = 7800463371553963])
       (simp_all add: two_powr_neg_numeral)
  then show ?thesis by (simp only: X_def)
qed

lemma round64_cos_texture [simp]: "round64 (cos (6124895493223875 / 9007199254740992)) = 7003752412840285 / 9007199254740992"
proof -
  define X :: real where "X = 6124895493223875 / 9007199254740992"
  have xpos: "0 < X" by (simp add: X_def)
  have p2: "462400000000000066435745793569 / 1000000000000000000000000000000 \<le> X ^ 2 \<and> X ^ 2 \<le> 46240000000000006643574579357 / 100000000000000000000000000000"
    by (simp add: X_def power2_eq_square)
  have p4: "53453440000000015359944427473 / 250000000000000000000000000000 \<le> X ^ 4 \<and> X ^ 4 \<le> 106906880000000030719888854947 / 500000000000000000000000000000"
    by (rule power_enclosure_step [OF p2 p2]) simp_all
  have p6: "98867482624000042614629819581 / 1000000000000000000000000000000 \<le> X ^ 6 \<and> X ^ 6 \<le> 98867482624000042614629819583 / 1000000000000000000000000000000"
    by (rule power_enclosure_step [OF p4 p2]) simp_all
  have p8: "5714540495667203284167471429 / 125000000000000000000000000000 \<le> X ^ 8 \<and> X ^ 8 \<le> 22858161982668813136669885717 / 500000000000000000000000000000"
    by (rule power_enclosure_step [OF p6 p2]) simp_all
  have p10: "21139228201572121425990387887 / 1000000000000000000000000000000 \<le> X ^ 10 \<and> X ^ 10 \<le> 21139228201572121425990387889 / 1000000000000000000000000000000"
    by (rule power_enclosure_step [OF p8 p2]) simp_all
  have p12: "977477912040695035177834643 / 100000000000000000000000000000 \<le> X ^ 12 \<and> X ^ 12 \<le> 152730923756358599246536663 / 15625000000000000000000000000"
    by (rule power_enclosure_step [OF p10 p2]) simp_all
  have p14: "225992893263808724602852411 / 50000000000000000000000000000 \<le> X ^ 14 \<and> X ^ 14 \<le> 2259928932638087246028524111 / 500000000000000000000000000000"
    by (rule power_enclosure_step [OF p12 p2]) simp_all
  have p16: "2089982276903703385407307257 / 1000000000000000000000000000000 \<le> X ^ 16 \<and> X ^ 16 \<le> 2089982276903703385407307259 / 1000000000000000000000000000000"
    by (rule power_enclosure_step [OF p14 p2]) simp_all
  have p3: "982600000000000211763939717 / 3125000000000000000000000000 \<le> X ^ 3 \<and> X ^ 3 \<le> 314432000000000067764460709441 / 1000000000000000000000000000000"
    by (simp add: X_def power3_eq_cube)
  have p5: "4543542400000001631994095419 / 31250000000000000000000000000 \<le> X ^ 5 \<and> X ^ 5 \<le> 14539335680000005222381105341 / 100000000000000000000000000000"
    by (rule power_enclosure_step [OF p3 p2]) simp_all
  have p7: "33614944092160016903803161767 / 500000000000000000000000000000 \<le> X ^ 7 \<and> X ^ 7 \<le> 4201868011520002112975395221 / 62500000000000000000000000000"
    by (rule power_enclosure_step [OF p5 p2]) simp_all
  have p9: "6217420059285917619820985029 / 200000000000000000000000000000 \<le> X ^ 9 \<and> X ^ 9 \<le> 31087100296429588099104925147 / 1000000000000000000000000000000"
    by (rule power_enclosure_step [OF p7 p2]) simp_all
  have p11: "14374675177069043602320810139 / 1000000000000000000000000000000 \<le> X ^ 11 \<and> X ^ 11 \<le> 14374675177069043602320810141 / 1000000000000000000000000000000"
    by (rule power_enclosure_step [OF p9 p2]) simp_all
  have p13: "6646849801876726716705408537 / 1000000000000000000000000000000 \<le> X ^ 13 \<and> X ^ 13 \<le> 6646849801876726716705408539 / 1000000000000000000000000000000"
    by (rule power_enclosure_step [OF p11 p2]) simp_all
  have p15: "3073503348387798875393004673 / 1000000000000000000000000000000 \<le> X ^ 15 \<and> X ^ 15 \<le> 1536751674193899437696502337 / 500000000000000000000000000000"
    by (rule power_enclosure_step [OF p13 p2]) simp_all
  have p17: "1421187948294518404172212509 / 1000000000000000000000000000000 \<le> X ^ 17 \<and> X ^ 17 \<le> 1421187948294518404172212511 / 1000000000000000000000000000000"
    by (rule power_enclosure_step [OF p15 p2]) simp_all
  have p1: "340000000000000024424906541753 / 500000000000000000000000000000 \<le> X \<and> X \<le> 680000000000000048849813083507 / 1000000000000000000000000000000" by (simp add: X_def)
  have enc: "77757271875092790262112496787 / 100000000000000000000000000000 \<le> cos X \<and> cos X \<le> 777572718750927910612343301913 / 1000000000000000000000000000000"
    using cos_enclosure [where n = 17 and x = X] xpos p1 p2 p4 p6 p8 p10 p12 p14 p16 p17
    by (simp add: cos_coeff_def lessThan_nat_numeral lessThan_Suc fact_numeral)
  have "round64 (cos X) = 7003752412840285 / 9007199254740992"
    by (rule round64_enclosed [OF enc, where e = "-1" and n = 7003752412840285])
       (simp_all add: two_powr_neg_numeral)
  then show ?thesis by (simp only: X_def)
qed

lemma round64_sin_texture [simp]: "round64 (sin (6124895493223875 / 9007199254740992)) = 5663664057325485 / 9007199254740992"
proof -
  define X :: real where "X = 6124895493223875 / 9007199254740992"
  have xpos: "0 < X" by (simp add: X_def)
  have p2: "462400000000000066435745793569 / 1000000000000000000000000000000 \<le> X ^ 2 \<and> X ^ 2 \<le> 46240000000000006643574579357 / 100000000000000000000000000000"
    by (simp add: X_def power2_eq_square)
  have p3: "982600000000000211763939717 / 3125000000000000000000000000 \<le> X ^ 3 \<and> X ^ 3 \<le> 314432000000000067764460709441 / 1000000000000000000000000000000"
    by (simp add: X_def power3_eq_cube)
  have p5: "4543542400000001631994095419 / 31250000000000000000000000000 \<le> X ^ 5 \<and> X ^ 5 \<le> 14539335680000005222381105341 / 100000000000000000000000000000"
    by (rule power_enclosure_step [OF p3 p2]) simp_all
  have p7: "33614944092160016903803161767 / 500000000000000000000000000000 \<le> X ^ 7 \<and> X ^ 7 \<le> 4201868011520002112975395221 / 62500000000000000000000000000"
    by (rule power_enclosure_step [OF p5 p2]) simp_all
  have p9: "6217420059285917619820985029 / 200000000000000000000000000000 \<le> X ^ 9 \<and> X ^ 9 \<le> 31087100296429588099104925147 / 1000000000000000000000000000000"
    by (rule power_enclosure_step [OF p7 p2]) simp_all
  have p11: "14374675177069043602320810139 / 1000000000000000000000000000000 \<le> X ^ 11 \<and> X ^ 11 \<le> 14374675177069043602320810141 / 1000000000000000000000000000000"
    by (rule power_enclosure_step [OF p9 p2]) simp_all
  have p13: "6646849801876726716705408537 / 1000000000000000000000000000000 \<le> X ^ 13 \<and> X ^ 13 \<le> 6646849801876726716705408539 / 1000000000000000000000000000000"
    by (rule power_enclosure_step [OF p11 p2]) simp_all
  have p15: "3073503348387798875393004673 / 1000000000000000000000000000000 \<le> X ^ 15 \<and> X ^ 15 \<le> 1536751674193899437696502337 / 500000000000000000000000000000"
    by (rule power_enclosure_step [OF p13 p2]) simp_all
  have p17: "1421187948294518404172212509 / 1000000000000000000000000000000 \<le> X ^ 17 \<and> X ^ 17 \<le> 1421187948294518404172212511 / 1000000000000000000000000000000"
    by (rule power_enclosure_step [OF p15 p2]) simp_all
  have p1: "340000000000000024424906541753 / 500000000000000000000000000000 \<le> X \<and> X \<le> 680000000000000048849813083507 / 1000000000000000000000000000000" by (simp add: X_def)
  have enc: "628793024018468543702638131527 / 1000000000000000000000000000000 \<le> sin X \<and> sin X \<le> 628793024018468551693856465571 / 1000000000000000000000000000000"
    using sin_enclosure [where n = 17 and x = X] xpos p1 p3 p5 p7 p9 p11 p13 p15 p17
    by (simp add: sin_coeff_def lessThan_nat_numeral lessThan_Suc fact_numeral)
  have "round64 (sin X) = 5663664057325485 / 9007199254740992"
    by (rule round64_enclosed [OF enc, where e = "-1" and n = 5663664057325485])
       (simp_all add: two_powr_neg_numeral)
  then show ?thesis by (simp only: X_def)
qed

text \<open>On binary64 numbers the hit point \<open>(-6371, 0, -2\<^sup>-\<^sup>4\<^sup>3)\<close>, just below the negative
  x axis, with texture rotation and tilt 0, is given the longitude -180: the angle is
  closer to \<open>-Math.PI\<close> than to any other binary64 number.\<close>

theorem pick_longitude_minus_180:
  "vlength (Vector3 (- 6371) 0 (- (1 / 8796093022208))) \<noteq> 0
 \<and> snd (pickGeoCoordinate64 (initialSettings\<lparr> textureRotation := 0, earthTilt := 0 \<rparr>)
            (Vector3 (- 6371) 0 (- (1 / 8796093022208)))) = - 180"
proof -
  let ?s = "initialSettings\<lparr> textureRotation := 0, earthTilt := 0 \<rparr>"
  have u: "untiltedPoint64 ?s (Vector3 (- 6371) 0 (- (1 / 8796093022208))) = Vector3 (- 6371) 0 (- (1 / 8796093022208))"
    by (rule untiltedPoint64_identity) simp_all
  have below: "round64 (atan2 (- (1 / 8796093022208)) (- 6371)) = - PI64"
    by (rule round64_atan2_near_minus_pi) simp_all
  have "snd (pickGeoCoordinate64 ?s (Vector3 (- 6371) 0 (- (1 / 8796093022208))))
        = radToDeg64 (round64 (atan2 (- (1 / 8796093022208)) (- 6371)))"
    by (simp add: pickGeoCoordinate64_def Let_def u)
  also have "\<dots> = radToDeg64 (- PI64)"
    by (simp only: below)
  also have "\<dots> = - 180"
    by (simp only: radToDeg64_def mult_minus_left round64_uminus radToDeg64_PI64)
  finally show ?thesis by (simp add: vlength_def)
qed


text \<open>
  Claim C5, as the code has it. The picking inverse undoes the body rotation by the
  inverse rotations in reverse order, first the tilt and then the texture rotation, so
  that it returns every point the forward rotation was applied to; for a hit point at a
  nonzero distance \<open>r\<close> from the origin the latitude is 90 minus the arc cosine, in
  degrees, of \<open>y / r\<close> clamped to [-1, 1], and the longitude is \<open>atan2 (z, x)\<close> in
  degrees, which lies in [-180, 180], both ends included, in exact arithmetic and on
  binary64 numbers.
\<close>

theorem pick_formula:
  assumes "vlength hit \<noteq> 0"
  shows "untiltedPoint s hit =
           applyMatrix4 (applyMatrix4 hit (makeRotationZ (- degToRad (earthTilt s))))
                        (makeRotationY (- textureRotation s))
       \<and> untiltedPoint s (applyMatrix4 v (rotationMatrix s)) = v
       \<and> fst (pickGeoCoordinate s hit) =
           90 - radToDeg (arccos (max (- 1) (min 1 (vy (untiltedPoint s hit) / vlength hit))))
       \<and> snd (pickGeoCoordinate s hit) =
           radToDeg (atan2 (vz (untiltedPoint s hit)) (vx (untiltedPoint s hit)))
       \<and> - 180 \<le> snd (pickGeoCoordinate s hit) \<and> snd (pickGeoCoordinate s hit) \<le> 180
       \<and> untiltedPoint64 s hit =
           applyMatrix4_64 (applyMatrix4_64 hit (makeRotationZ64 (- degToRad64 (earthTilt s))))
                           (makeRotationY64 (- textureRotation s))
       \<and> snd (pickGeoCoordinate64 s hit) =
           radToDeg64 (round64 (atan2 (vz (untiltedPoint64 s hit)) (vx (untiltedPoint64 s hit))))
       \<and> - 180 \<le> snd (pickGeoCoordinate64 s hit) \<and> snd (pickGeoCoordinate64 s hit) \<le> 180"
proof -
  let ?u = "untiltedPoint s hit"
  have range: "- pi < atan2 (vz ?u) (vx ?u)" "atan2 (vz ?u) (vx ?u) \<le> pi"
    using atan2_range [of "vz ?u" "vx ?u"] by simp_all
  have lo: "- 180 \<le> radToDeg (atan2 (vz ?u) (vx ?u))"
    using range(1) pi_gt_zero by (simp add: radToDeg_def field_simps)
  have hi: "radToDeg (atan2 (vz ?u) (vx ?u)) \<le> 180"
    using range(2) pi_gt_zero by (simp add: radToDeg_def field_simps)
  have exact: "untiltedPoint s hit =
           applyMatrix4 (applyMatrix4 hit (makeRotationZ (- degToRad (earthTilt s))))
                        (makeRotationY (- textureRotation s))
       \<and> untiltedPoint s (applyMatrix4 v (rotationMatrix s)) = v
       \<and> fst (pickGeoCoordinate s hit) =
           90 - radToDeg (arccos (max (- 1) (min 1 (vy (untiltedPoint s hit) / vlength hit))))
       \<and> snd (pickGeoCoordinate s hit) =
           radToDeg (atan2 (vz (untiltedPoint s hit)) (vx (untiltedPoint s hit)))
       \<and> - 180 \<le> snd (pickGeoCoordinate s hit) \<and> snd (pickGeoCoordinate s hit) \<le> 180"
    using lo hi
    by (simp add: pickGeoCoordinate_def Let_def vlength_untiltedPoint untilted_rotated)
       (simp add: untiltedPoint_def)
  let ?w = "untiltedPoint64 s hit"
  have order64: "untiltedPoint64 s hit =
           applyMatrix4_64 (applyMatrix4_64 hit (makeRotationZ64 (- degToRad64 (earthTilt s))))
                           (makeRotationY64 (- textureRotation s))"
    by (simp add: untiltedPoint64_def)
  have lon64: "snd (pickGeoCoordinate64 s hit) = radToDeg64 (round64 (atan2 (vz ?w) (vx ?w)))"
    by (simp add: pickGeoCoordinate64_def Let_def)
  have "\<bar>snd (pickGeoCoordinate64 s hit)\<bar> \<le> 180"
    unfolding lon64 by (rule radToDeg64_atan2_range)
  then have range64: "- 180 \<le> snd (pickGeoCoordinate64 s hit)"
      "snd (pickGeoCoordinate64 s hit) \<le> 180"
    by (simp_all add: abs_le_iff)
  show ?thesis
    using exact order64 lon64 range64 by blast
qed

theorem pick_formula_witness:
  "fst (pickGeoCoordinate initialSettings (Vector3 0 EARTH_RADIUS 0)) =
     90 - radToDeg (arccos (max (- 1) (min 1
       (vy (untiltedPoint initialSettings (Vector3 0 EARTH_RADIUS 0)) / vlength (Vector3 0 EARTH_RADIUS 0)))))
   \<and> snd (pickGeoCoordinate initialSettings (Vector3 0 EARTH_RADIUS 0)) \<le> 180
   \<and> - 180 \<le> snd (pickGeoCoordinate64 initialSettings (Vector3 0 EARTH_RADIUS 0))"
proof -
  have "vlength (Vector3 0 EARTH_RADIUS 0) \<noteq> 0"
    by (simp add: vlength_def EARTH_RADIUS_def)
  from pick_formula [OF this, of initialSettings "Vector3 0 0 0"] show ?thesis by blast
qed

section \<open>The tangent basis\<close>

lemma cross_reference_nonzero:
  assumes "dot n n = 1"
  shows "dot (crossVectors (referenceVector n) n) (crossVectors (referenceVector n) n) > 0"
proof (cases "\<bar>vy n\<bar> > 0.9")
  case True
  then have "vy n \<noteq> 0" by auto
  then have "0 < (vy n)\<^sup>2" by simp
  then have "vy n * vy n > 0" by (simp add: power2_eq_square)
  moreover have "0 \<le> vz n * vz n" by simp
  ultimately have "0 < vz n * vz n + vy n * vy n" by linarith
  moreover have "dot (crossVectors (referenceVector n) n) (crossVectors (referenceVector n) n)
                 = vz n * vz n + vy n * vy n"
    using True by (simp add: referenceVector_def crossVectors_def dot_def)
  ultimately show ?thesis by simp
next
  case False
  then have "\<bar>vy n\<bar> \<le> 9 / 10" by simp
  then have "\<bar>vy n\<bar> * \<bar>vy n\<bar> \<le> (9 / 10) * (9 / 10)"
    by (intro mult_mono) simp_all
  then have "vy n * vy n \<le> 81 / 100" by (simp add: abs_mult_self_eq)
  moreover have "vx n * vx n + vy n * vy n + vz n * vz n = 1"
    using assms by (simp add: dot_def)
  ultimately have "vz n * vz n + vx n * vx n > 0" by linarith
  moreover have "dot (crossVectors (referenceVector n) n) (crossVectors (referenceVector n) n)
                 = vz n * vz n + vx n * vx n"
    using False by (simp add: referenceVector_def crossVectors_def dot_def)
  ultimately show ?thesis by simp
qed

lemma eastVector_unit:
  assumes "vlength n = 1"
  shows "vlength (eastVector n) = 1"
proof -
  have "dot n n = 1" using assms by (simp add: vlength_eq_1_iff)
  from cross_reference_nonzero [OF this]
  have "vlength (crossVectors (referenceVector n) n) \<noteq> 0"
    by (simp add: vlength_eq_0_iff)
  then show ?thesis
    unfolding eastVector_def by (rule vlength_normalize)
qed

lemma eastVector_normal: "dot (eastVector n) n = 0"
  unfolding eastVector_def by (intro dot_normalize_left dot_cross_right)

lemma cross_normal_east_unit:
  assumes "vlength n = 1"
  shows "vlength (crossVectors n (eastVector n)) = 1"
proof -
  have n: "dot n n = 1" using assms by (simp add: vlength_eq_1_iff)
  have e: "dot (eastVector n) (eastVector n) = 1"
    using eastVector_unit [OF assms] by (simp add: vlength_eq_1_iff)
  have "dot n (eastVector n) = 0"
    using eastVector_normal [of n] by (simp add: dot_commute)
  then show ?thesis
    by (simp add: vlength_eq_1_iff cross_lagrange n e)
qed

lemma northVector_cross:
  assumes "vlength n = 1"
  shows "northVector n = crossVectors n (eastVector n)"
  unfolding northVector_def using cross_normal_east_unit [OF assms] by (rule normalize_unit)

lemma northVector_unit:
  assumes "vlength n = 1"
  shows "vlength (northVector n) = 1"
  using assms by (simp add: northVector_cross cross_normal_east_unit)

lemma northVector_normal: "dot (northVector n) n = 0"
  unfolding northVector_def by (intro dot_normalize_left dot_cross_left)

lemma northVector_east: "dot (eastVector n) (northVector n) = 0"
proof -
  have "dot (northVector n) (eastVector n) = 0"
    unfolding northVector_def by (intro dot_normalize_left dot_cross_right)
  then show ?thesis by (simp add: dot_commute)
qed

lemma tangentViewDirection_normal: "dot (tangentViewDirection s n) n = 0"
  unfolding tangentViewDirection_def
  by (intro dot_normalize_left)
     (simp add: dot_combination eastVector_normal northVector_normal)

lemma viewDirection_uncorrected: "viewDirection s n = tangentViewDirection s n"
  by (simp add: viewDirection_def Let_def tangentViewDirection_normal)

lemma sin_cos_square: "sin t * sin t + cos t * cos t = (1::real)"
  using sin_cos_cancel [of t 1] by simp

lemma tangentViewDirection_unit:
  assumes "vlength n = 1"
  shows "vlength (tangentViewDirection s n) = 1"
proof -
  have e: "dot (eastVector n) (eastVector n) = 1"
    using eastVector_unit [OF assms] by (simp add: vlength_eq_1_iff)
  have m: "dot (northVector n) (northVector n) = 1"
    using northVector_unit [OF assms] by (simp add: vlength_eq_1_iff)
  let ?w = "addScaledVector
          (addScaledVector (Vector3 0 0 0) (eastVector n) (sin (totalRotation s)))
          (northVector n) (cos (totalRotation s))"
  have "dot ?w ?w = 1"
    by (simp add: norm_combination e m northVector_east sin_cos_square)
  then have "vlength ?w = 1" by (simp add: vlength_eq_1_iff)
  then show ?thesis
    by (simp add: tangentViewDirection_def normalize_unit)
qed

lemma lookDirection_blend_unit:
  assumes "vlength n = 1"
  shows "vlength (addScaledVector
           (addScaledVector (Vector3 0 0 0) (viewDirection s n) (cos t)) n (sin t)) = 1"
proof -
  have nn: "dot n n = 1" using assms by (simp add: vlength_eq_1_iff)
  have vv: "dot (viewDirection s n) (viewDirection s n) = 1"
    using tangentViewDirection_unit [OF assms, of s]
    by (simp add: viewDirection_uncorrected vlength_eq_1_iff)
  have vn: "dot (viewDirection s n) n = 0"
    by (simp add: viewDirection_uncorrected tangentViewDirection_normal)
  have "cos t * cos t + sin t * sin t = 1"
    using sin_cos_square [of t] by simp
  then show ?thesis
    by (simp add: vlength_eq_1_iff norm_combination nn vv vn)
qed

lemma lookDirection_unit:
  assumes "vlength n = 1"
  shows "vlength (lookDirection s n) = 1"
  using lookDirection_blend_unit [OF assms]
  by (simp add: lookDirection_def Let_def normalize_unit)

lemma surfaceNormal_idem: "vnormalize (surfaceNormal m) = surfaceNormal m"
proof (cases "vlength m = 0")
  case True
  then show ?thesis by (simp add: surfaceNormal_def normalize_zero)
next
  case False
  then have "vlength (vnormalize m) = 1" by (rule vlength_normalize)
  then show ?thesis by (simp add: surfaceNormal_def normalize_unit)
qed

text \<open>
  Claim C3. Normal invariant: whatever the latitude, longitude, texture rotation, tilt,
  time of day and view state are, the up vector \<open>updatePictureInPicture\<close> gives the
  surface camera is the normalized marker position \<open>updateLocationMarker\<close> computes, and
  both are the unit outward normal of the sphere at the rotated surface point.
\<close>

theorem camera_up_is_marker_normal:
  assumes "pipEnabled s"
  shows "\<exists>pose. updatePictureInPicture s (position (updateLocationMarker s)) = Some pose
           \<and> cam_up pose = vnormalize (position (updateLocationMarker s))
           \<and> cam_up pose = multiplyScalar (surfacePoint s) (1 / EARTH_RADIUS)
           \<and> vlength (cam_up pose) = 1"
  using assms marker_normal [of s] marker_normal_unit [of s]
  by (simp add: updatePictureInPicture_def Let_def surfaceNormal_def)

theorem camera_up_is_marker_normal_witness:
  "\<exists>pose. updatePictureInPicture initialSettings (position (updateLocationMarker initialSettings)) = Some pose
           \<and> cam_up pose = vnormalize (position (updateLocationMarker initialSettings))"
proof -
  have "pipEnabled initialSettings" by (simp add: initialSettings_def)
  from camera_up_is_marker_normal [OF this] show ?thesis by blast
qed

text \<open>
  Claim C7. Tilt blend: the look direction of the surface camera is the normalized sum
  of the tangent view direction weighted by the cosine of the tilt and the surface
  normal weighted by its sine; at a tilt of 90 degrees it is the surface normal itself.
\<close>

theorem look_direction_blend:
  assumes "updatePictureInPicture s markerPos = Some pose"
  shows "cam_lookDirection pose =
           vnormalize (vadd (multiplyScalar (viewDirection s (surfaceNormal markerPos))
                                           (cos (degToRad (pipTilt s))))
                           (multiplyScalar (surfaceNormal markerPos)
                                           (sin (degToRad (pipTilt s)))))
       \<and> (pipTilt s = 90 \<longrightarrow> cam_lookDirection pose = surfaceNormal markerPos)"
proof -
  let ?n = "surfaceNormal markerPos"
  have look: "cam_lookDirection pose = lookDirection s ?n"
    using assms by (auto simp: updatePictureInPicture_def Let_def split: if_splits)
  have sum: "addScaledVector (addScaledVector (Vector3 0 0 0) v p) w q
             = vadd (multiplyScalar v p) (multiplyScalar w q)" for v w p q
    by (simp add: addScaledVector_def vadd_def multiplyScalar_def)
  have first: "lookDirection s ?n =
           vnormalize (vadd (multiplyScalar (viewDirection s ?n) (cos (degToRad (pipTilt s))))
                           (multiplyScalar ?n (sin (degToRad (pipTilt s)))))"
    by (simp add: lookDirection_def Let_def sum)
  have second: "lookDirection s ?n = ?n" if "pipTilt s = 90"
  proof -
    have c: "cos (degToRad (pipTilt s)) = 0" and sn: "sin (degToRad (pipTilt s)) = 1"
      using that by (simp_all add: degToRad_def)
    have "lookDirection s ?n = vnormalize (Vector3 (vx ?n) (vy ?n) (vz ?n))"
      by (simp add: lookDirection_def Let_def addScaledVector_def c sn)
    then show ?thesis by (simp add: surfaceNormal_idem)
  qed
  show ?thesis using look first second by simp
qed

theorem look_direction_blend_witness:
  "cam_lookDirection
     (the (updatePictureInPicture (initialSettings\<lparr> pipTilt := 90 \<rparr>) (Vector3 0 0 5)))
   = surfaceNormal (Vector3 0 0 5)"
proof -
  have "updatePictureInPicture (initialSettings\<lparr> pipTilt := 90 \<rparr>) (Vector3 0 0 5)
        = Some (the (updatePictureInPicture (initialSettings\<lparr> pipTilt := 90 \<rparr>) (Vector3 0 0 5)))"
    by (simp add: updatePictureInPicture_def initialSettings_def Let_def)
  from look_direction_blend [OF this, THEN conjunct2] show ?thesis by simp
qed

text \<open>
  Claim C8. Perpendicularity: for every input, the tangent view direction built from the
  east and north vectors and the heading (hour angle plus user rotation) has a dot product
  with the surface normal within 0.001 of zero, before the corrective re-projection and
  after it; in exact arithmetic the re-projection leaves the direction unchanged.
\<close>

theorem view_direction_perpendicular:
  "\<bar>dot (tangentViewDirection s (surfaceNormal markerPos)) (surfaceNormal markerPos)\<bar> \<le> 1 / 1000
 \<and> \<bar>dot (viewDirection s (surfaceNormal markerPos)) (surfaceNormal markerPos)\<bar> \<le> 1 / 1000
 \<and> viewDirection s (surfaceNormal markerPos) = tangentViewDirection s (surfaceNormal markerPos)"
  by (simp add: viewDirection_uncorrected tangentViewDirection_normal)

theorem view_direction_perpendicular_witness:
  "\<bar>dot (viewDirection initialSettings (surfaceNormal (position (updateLocationMarker initialSettings))))
        (surfaceNormal (position (updateLocationMarker initialSettings)))\<bar> \<le> 1 / 1000"
  using view_direction_perpendicular [of initialSettings "position (updateLocationMarker initialSettings)"]
  by simp

section \<open>What the handlers leave unchanged\<close>

lemma refreshPictureInPicture_pipCamera:
  "refreshPictureInPicture st =
     st\<lparr> pipCamera :=
           (case updatePictureInPicture (settings st) (position (locationMarker st)) of
              None \<Rightarrow> pipCamera st | Some pose \<Rightarrow> Some pose) \<rparr>"
  by (simp add: refreshPictureInPicture_def split: option.splits)

lemma settings_refreshPictureInPicture [simp]:
  "settings (refreshPictureInPicture st) = settings st"
  by (simp add: refreshPictureInPicture_def split: option.splits)

lemma earthRotation_refreshPictureInPicture [simp]:
  "earthRotation (refreshPictureInPicture st) = earthRotation st"
  by (simp add: refreshPictureInPicture_def split: option.splits)

lemma locationMarker_refreshPictureInPicture [simp]:
  "locationMarker (refreshPictureInPicture st) = locationMarker st"
  by (simp add: refreshPictureInPicture_def split: option.splits)

lemma settings_updateEarthRotation [simp]:
  "settings (updateEarthRotation st) = settings st"
  by (simp add: updateEarthRotation_def)

lemma settings_updateView:
  "settings (updateView st) = settings st
   \<or> settings (updateView st) = (settings st)\<lparr> selectedLocation := ''Custom'' \<rparr>"
  by (simp add: updateView_def Let_def)

lemma pipTilt_updateView [simp]: "pipTilt (settings (updateView st)) = pipTilt (settings st)"
  using settings_updateView [of st] by auto

lemma textureRotation_updateView [simp]:
  "textureRotation (settings (updateView st)) = textureRotation (settings st)"
  using settings_updateView [of st] by auto

lemma earthTilt_updateView [simp]:
  "earthTilt (settings (updateView st)) = earthTilt (settings st)"
  using settings_updateView [of st] by auto

lemma timeOfDay_updateView [simp]:
  "timeOfDay (settings (updateView st)) = timeOfDay (settings st)"
  using settings_updateView [of st] by auto

lemma latitude_updateView [simp]:
  "latitude (settings (updateView st)) = latitude (settings st)"
  using settings_updateView [of st] by auto

lemma longitude_updateView [simp]:
  "longitude (settings (updateView st)) = longitude (settings st)"
  using settings_updateView [of st] by auto

lemma selectedLocation_updateView_Custom:
  "selectedLocation (settings st) = ''Custom'' \<Longrightarrow>
   selectedLocation (settings (updateView st)) = ''Custom''"
  by (simp add: updateView_def Let_def)

lemma earthRotation_updateView:
  "earthRotation (updateView st) =
     Euler (ex (earthRotation st))
           (textureRotation (settings st) + hourAngle (settings st))
           (ez (earthRotation st))"
  by (simp add: updateView_def Let_def)

lemma locationMarker_updateView:
  "locationMarker (updateView st) = updateLocationMarker (settings st)"
  by (simp add: updateView_def Let_def)

lemma pipTilt_onEarthClick [simp]:
  "pipTilt (settings (onEarthClick hit st)) = pipTilt (settings st)"
  by (simp add: onEarthClick_def Let_def split: option.splits prod.splits)

lemma pipTilt_keyDown [simp]: "pipTilt (settings (keyDown key st)) = pipTilt (settings st)"
  by (simp add: keyDown_def Let_def)

lemma pipTilt_guiSelectLocation [simp]:
  "pipTilt (settings (guiSelectLocation v st)) = pipTilt (settings st)"
  by (simp add: guiSelectLocation_def Let_def split: option.splits)

lemma pipTilt_pipMouseMove:
  assumes "10 \<le> pipTilt (settings st)" and "pipTilt (settings st) \<le> 170"
  shows "10 \<le> pipTilt (settings (pipMouseMove clientX clientY st))
       \<and> pipTilt (settings (pipMouseMove clientX clientY st)) \<le> 170"
  using assms by (simp add: pipMouseMove_def Let_def)

lemma pipTilt_handleEvent:
  assumes "10 \<le> pipTilt (settings st)" and "pipTilt (settings st) \<le> 170"
  shows "10 \<le> pipTilt (settings (handleEvent e st))
       \<and> pipTilt (settings (handleEvent e st)) \<le> 170"
proof (cases e)
  case (PipMouseMove clientX clientY)
  then show ?thesis using pipTilt_pipMouseMove [OF assms] by simp
qed (use assms in \<open>simp_all split: if_splits add: Let_def\<close>)

lemma pipTilt_run:
  assumes "10 \<le> pipTilt (settings st)" and "pipTilt (settings st) \<le> 170"
  shows "10 \<le> pipTilt (settings (run es st)) \<and> pipTilt (settings (run es st)) \<le> 170"
  using assms
proof (induction es arbitrary: st)
  case Nil
  then show ?case by simp
next
  case (Cons e es)
  from pipTilt_handleEvent [OF Cons.prems, of e]
  show ?case by (simp add: Cons.IH)
qed

lemma settings_initialState: "settings initialState = initialSettings"
  by (simp add: initialState_def)

text \<open>
  Claim C4. In every state the simulator reaches from its initial state by any sequence
  of events, the tilt \<open>updatePictureInPicture\<close> uses in the look-direction blend lies
  between 10 and 170 degrees, and so is never 0 or 180: the only handler that writes it
  clamps it first.
\<close>

theorem pip_tilt_clamped:
  "10 \<le> pipTilt (settings (run es initialState))
 \<and> pipTilt (settings (run es initialState)) \<le> 170
 \<and> pipTilt (settings (run es initialState)) \<noteq> 0
 \<and> pipTilt (settings (run es initialState)) \<noteq> 180"
proof -
  have "10 \<le> pipTilt (settings initialState)" "pipTilt (settings initialState) \<le> 170"
    by (simp_all add: settings_initialState initialSettings_def)
  from pipTilt_run [OF this, of es] show ?thesis by auto
qed

theorem pip_tilt_clamped_witness:
  "pipTilt (settings (run [PipMouseDown 0 0, PipMouseMove 0 1000] initialState)) = 10
 \<and> pipTilt (settings (run [PipMouseDown 0 0, PipMouseMove 0 (- 1000)] initialState)) \<le> 170"
proof -
  have "pipTilt (settings (run [PipMouseDown 0 0, PipMouseMove 0 1000] initialState)) = 10"
    by (simp add: pipMouseMove_def Let_def initialState_def updateEarthRotation_def
        initialSettings_def refreshPictureInPicture_pipCamera)
  with pip_tilt_clamped [of "[PipMouseDown 0 0, PipMouseMove 0 (- 1000)]"] show ?thesis by simp
qed

section \<open>The rotation of the mesh and the rotation of the marker\<close>

lemma degToRad_90: "degToRad 90 = pi / 2"
  by (simp add: degToRad_def)

text \<open>
  Claim C2, evaluated. With the time of day set to 0 and the tilt set to 90 (texture
  rotation at its initial value \<open>\<pi>\<close>, latitude and longitude 0), the mesh is drawn with
  the Euler rotation \<open>(0, \<pi>, \<pi>/2)\<close>, which carries the body point of the marker to
  \<open>(0, EARTH_RADIUS, 0)\<close>, while \<open>updateLocationMarker\<close> rotates the same body point to
  \<open>(0, - EARTH_RADIUS, 0)\<close> and places the marker beyond it, on the opposite side of
  the planet.
\<close>

theorem marker_rotation_differs_from_mesh:
  "earthRotation (run [GuiTimeOfDay 0, GuiEarthTilt 90] initialState) = Euler 0 pi (pi / 2)
 \<and> applyMatrix4 (spherePoint (settings (run [GuiTimeOfDay 0, GuiEarthTilt 90] initialState)))
                 (makeRotationFromEuler (earthRotation (run [GuiTimeOfDay 0, GuiEarthTilt 90] initialState)))
     = Vector3 0 EARTH_RADIUS 0
 \<and> surfacePoint (settings (run [GuiTimeOfDay 0, GuiEarthTilt 90] initialState))
     = Vector3 0 (- EARTH_RADIUS) 0
 \<and> position (locationMarker (run [GuiTimeOfDay 0, GuiEarthTilt 90] initialState))
     = Vector3 0 (- (1.02 * EARTH_RADIUS)) 0"
proof -
  let ?st = "run [GuiTimeOfDay 0, GuiEarthTilt 90] initialState"
  have la: "latitude (settings ?st) = 0" and lo: "longitude (settings ?st) = 0"
    and tr: "textureRotation (settings ?st) = pi" and et: "earthTilt (settings ?st) = 90"
    by (simp_all add: settings_initialState initialSettings_def)
  have rot: "earthRotation ?st = Euler 0 pi (pi / 2)"
    by (simp add: earthRotation_updateView updateEarthRotation_def hourAngle_def
        settings_initialState initialSettings_def degToRad_90)
  have body: "spherePoint (settings ?st) = Vector3 EARTH_RADIUS 0 0"
    unfolding spherePoint_def la lo by (simp add: degToRad_90) (simp add: degToRad_def)
  have mesh: "applyMatrix4 (Vector3 EARTH_RADIUS 0 0) (makeRotationFromEuler (Euler 0 pi (pi / 2)))
              = Vector3 0 EARTH_RADIUS 0"
    by (simp add: applyMatrix4_def makeRotationFromEuler_def Let_def)
  have surf: "surfacePoint (settings ?st) = Vector3 0 (- EARTH_RADIUS) 0"
    unfolding surfacePoint_def body rotationMatrix_def tr et
    by (simp add: Let_def applyMatrix4_rotation_product applyMatrix4_makeRotationY
        applyMatrix4_makeRotationZ degToRad_90)
  have marker: "locationMarker ?st = updateLocationMarker (settings ?st)"
    by (simp add: locationMarker_updateView updateLocationMarker_def surfacePoint_def
        spherePoint_def rotationMatrix_def)
  have pos: "position (locationMarker ?st) = Vector3 0 (- (1.02 * EARTH_RADIUS)) 0"
    unfolding marker marker_position surf by (simp add: multiplyScalar_def)
  show ?thesis
    using rot mesh surf pos by (simp only: body)
qed

section \<open>The poles\<close>

lemma surfacePoint_north_pole:
  assumes "latitude s = 90"
  shows "surfacePoint s =
           Vector3 (- (sin (degToRad (earthTilt s)) * EARTH_RADIUS))
                   (cos (degToRad (earthTilt s)) * EARTH_RADIUS) 0"
proof -
  have "spherePoint s = Vector3 0 EARTH_RADIUS 0"
    using assms by (simp add: spherePoint_def Let_def degToRad_def)
  then show ?thesis
    by (simp add: surfacePoint_def rotationMatrix_def Let_def applyMatrix4_rotation_product
        applyMatrix4_makeRotationY applyMatrix4_makeRotationZ)
qed

lemma surfacePoint_south_pole:
  assumes "latitude s = - 90"
  shows "surfacePoint s =
           Vector3 (sin (degToRad (earthTilt s)) * EARTH_RADIUS)
                   (- (cos (degToRad (earthTilt s)) * EARTH_RADIUS)) 0"
proof -
  have "degToRad (90 - latitude s) = pi"
    using assms by (simp add: degToRad_def)
  then have "spherePoint s = Vector3 0 (- EARTH_RADIUS) 0"
    by (simp add: spherePoint_def Let_def)
  then show ?thesis
    by (simp add: surfacePoint_def rotationMatrix_def Let_def applyMatrix4_rotation_product
        applyMatrix4_makeRotationY applyMatrix4_makeRotationZ)
qed

lemma pole_normal_y:
  assumes "latitude s = 90 \<or> latitude s = - 90"
  shows "\<bar>vy (surfaceNormal (position (updateLocationMarker s)))\<bar> = \<bar>cos (degToRad (earthTilt s))\<bar>"
  using assms EARTH_RADIUS_pos
  by (auto simp: marker_normal surfacePoint_north_pole surfacePoint_south_pole multiplyScalar_def
      abs_mult)

lemma referenceVector_cases:
  "(referenceVector n = Vector3 1 0 0 \<longleftrightarrow> \<bar>vy n\<bar> > 0.9)
 \<and> (referenceVector n = Vector3 0 1 0 \<longleftrightarrow> \<not> \<bar>vy n\<bar> > 0.9)"
  by (simp add: referenceVector_def)

text \<open>
  Claim C6, as the code has it. At latitude 90 and at latitude -90, for any texture
  rotation, tilt, time of day and view state, every vector of the surface-camera
  computation is a unit vector, so no cross product degenerates and no normalisation
  meets a zero vector; the reference vector of the tangent basis is \<open>(1, 0, 0)\<close> exactly
  when the absolute cosine of the tilt exceeds 0.9, and world up \<open>(0, 1, 0)\<close> otherwise.
\<close>

theorem pole_basis:
  assumes "latitude s = 90 \<or> latitude s = - 90"
  shows "vlength (surfaceNormal (position (updateLocationMarker s))) = 1
       \<and> vlength (eastVector (surfaceNormal (position (updateLocationMarker s)))) = 1
       \<and> vlength (northVector (surfaceNormal (position (updateLocationMarker s)))) = 1
       \<and> vlength (viewDirection s (surfaceNormal (position (updateLocationMarker s)))) = 1
       \<and> vlength (lookDirection s (surfaceNormal (position (updateLocationMarker s)))) = 1
       \<and> (referenceVector (surfaceNormal (position (updateLocationMarker s))) = Vector3 1 0 0
            \<longleftrightarrow> \<bar>cos (degToRad (earthTilt s))\<bar> > 0.9)
       \<and> (referenceVector (surfaceNormal (position (updateLocationMarker s))) = Vector3 0 1 0
            \<longleftrightarrow> \<not> \<bar>cos (degToRad (earthTilt s))\<bar> > 0.9)"
proof -
  let ?n = "surfaceNormal (position (updateLocationMarker s))"
  have unit: "vlength ?n = 1" by (rule marker_normal_unit)
  have view: "vlength (viewDirection s ?n) = 1"
    using tangentViewDirection_unit [OF unit] by (simp add: viewDirection_uncorrected)
  show ?thesis
    using unit view eastVector_unit [OF unit] northVector_unit [OF unit]
      lookDirection_unit [OF unit] referenceVector_cases [of ?n] pole_normal_y [OF assms]
    by simp
qed

theorem pole_basis_witness:
  "vlength (eastVector (surfaceNormal (position (updateLocationMarker
      (initialSettings\<lparr> latitude := 90, earthTilt := 0 \<rparr>))))) = 1
 \<and> referenceVector (surfaceNormal (position (updateLocationMarker
      (initialSettings\<lparr> latitude := 90, earthTilt := 0 \<rparr>)))) = Vector3 1 0 0"
  using pole_basis [of "initialSettings\<lparr> latitude := 90, earthTilt := 0 \<rparr>"]
  by (simp add: degToRad_def)

text \<open>At the north pole with the tilt at 90 degrees the normal is horizontal and the
  reference vector stays world up: the fallback does not engage.\<close>

theorem pole_fallback_counterexample:
  "referenceVector (surfaceNormal (position (updateLocationMarker
      (initialSettings\<lparr> latitude := 90, earthTilt := 90 \<rparr>)))) = Vector3 0 1 0
 \<and> \<not> \<bar>vy (surfaceNormal (position (updateLocationMarker
      (initialSettings\<lparr> latitude := 90, earthTilt := 90 \<rparr>))))\<bar> > 0.9"
proof -
  let ?s = "initialSettings\<lparr> latitude := 90, earthTilt := 90 \<rparr>"
  have "surfacePoint ?s = Vector3 (- EARTH_RADIUS) 0 0"
    by (simp add: surfacePoint_north_pole degToRad_90)
  then have "surfaceNormal (position (updateLocationMarker ?s)) = Vector3 (- 1) 0 0"
    using EARTH_RADIUS_pos by (simp add: marker_normal multiplyScalar_def)
  then show ?thesis by (simp add: referenceVector_def)
qed

section \<open>The label of a picked coordinate\<close>

lemma catalogue_by_longitude:
  assumes "loc \<in> set locations" and "\<bar>lon loc - lo\<bar> < 2"
  shows "loc = locations !
           (if lo < - 145 then 3 else if lo < - 110 then 1 else if lo < - 70 then 7
            else if lo < - 35 then 5 else if lo < 0 then 4 else if lo < 32 then 6
            else if lo < 58 then 2 else 0)"
  using assms unfolding locations_def
  by (simp only: set_simps insert_iff empty_iff) (elim disjE, simp_all)

lemma catalogue_match_unique:
  assumes "loc \<in> set locations" and "loc' \<in> set locations"
    and "\<bar>lat loc - la\<bar> < 2 \<and> \<bar>lon loc - lo\<bar> < 2"
    and "\<bar>lat loc' - la\<bar> < 2 \<and> \<bar>lon loc' - lo\<bar> < 2"
  shows "loc = loc'"
proof -
  have a: "\<bar>lon loc - lo\<bar> < 2" and b: "\<bar>lon loc' - lo\<bar> < 2"
    using assms(3,4) by simp_all
  from catalogue_by_longitude [OF assms(1) a] catalogue_by_longitude [OF assms(2) b]
  show ?thesis by (rule trans [OF _ sym])
qed

lemma findClosestLocation_Some:
  assumes "findClosestLocation la lo = Some loc"
  shows "loc \<in> set locations \<and> \<bar>lat loc - la\<bar> < 2 \<and> \<bar>lon loc - lo\<bar> < 2"
  using assms unfolding findClosestLocation_def find_Some_iff
  by (auto simp: in_set_conv_nth)

lemma findClosestLocation_None:
  assumes "findClosestLocation la lo = None" and "loc \<in> set locations"
  shows "\<not> (\<bar>lat loc - la\<bar> < 2 \<and> \<bar>lon loc - lo\<bar> < 2)"
  using assms unfolding findClosestLocation_def find_None_iff by blast

lemma label_onEarthClick:
  assumes "\<not> hasDragged st"
  shows "selectedLocation (settings (onEarthClick (Some hit) st)) =
           (case findClosestLocation (fst (pickGeoCoordinate (settings st) hit))
                                     (snd (pickGeoCoordinate (settings st) hit)) of
              None \<Rightarrow> ''Custom'' | Some loc \<Rightarrow> name loc)"
  using assms
  by (simp add: onEarthClick_def Let_def selectedLocation_updateView_Custom
      split: prod.splits option.splits)

text \<open>
  Claim C9. Label rule: after a pick, when a catalogued location lies within 2 degrees
  of the picked coordinate in both latitude and longitude, the selected label is the
  name of that location, which is the only one within the tolerance and so the nearest
  of them; when none does, the label is \<open>Custom\<close>. A hit point equal to the marker
  position placed for Tokyo (35.6833, -139.7667), under the orientation of the moment,
  is labelled \<open>Tokyo\<close>.
\<close>

theorem pick_label:
  assumes "\<not> hasDragged st"
  shows "(\<forall>loc \<in> set locations.
            \<bar>lat loc - fst (pickGeoCoordinate (settings st) hit)\<bar> < 2
            \<and> \<bar>lon loc - snd (pickGeoCoordinate (settings st) hit)\<bar> < 2
            \<longrightarrow> selectedLocation (settings (onEarthClick (Some hit) st)) = name loc)
       \<and> ((\<forall>loc \<in> set locations.
             \<not> (\<bar>lat loc - fst (pickGeoCoordinate (settings st) hit)\<bar> < 2
                \<and> \<bar>lon loc - snd (pickGeoCoordinate (settings st) hit)\<bar> < 2))
            \<longrightarrow> selectedLocation (settings (onEarthClick (Some hit) st)) = ''Custom'')
       \<and> selectedLocation (settings (onEarthClick
            (Some (position (updateLocationMarker
               ((settings st)\<lparr> latitude := 35.6833, longitude := - 139.7667 \<rparr>)))) st))
          = ''Tokyo''"
proof (intro conjI ballI impI)
  let ?la = "fst (pickGeoCoordinate (settings st) hit)"
  let ?lo = "snd (pickGeoCoordinate (settings st) hit)"
  fix loc
  assume loc: "loc \<in> set locations" and near: "\<bar>lat loc - ?la\<bar> < 2 \<and> \<bar>lon loc - ?lo\<bar> < 2"
  show "selectedLocation (settings (onEarthClick (Some hit) st)) = name loc"
  proof (cases "findClosestLocation ?la ?lo")
    case None
    from findClosestLocation_None [OF None loc] near show ?thesis by simp
  next
    case (Some found)
    from findClosestLocation_Some [OF Some] loc near
    have "found = loc" by (intro catalogue_match_unique [of found loc ?la ?lo]) simp_all
    with Some show ?thesis by (simp add: label_onEarthClick [OF assms])
  qed
next
  let ?la = "fst (pickGeoCoordinate (settings st) hit)"
  let ?lo = "snd (pickGeoCoordinate (settings st) hit)"
  assume none: "\<forall>loc \<in> set locations. \<not> (\<bar>lat loc - ?la\<bar> < 2 \<and> \<bar>lon loc - ?lo\<bar> < 2)"
  show "selectedLocation (settings (onEarthClick (Some hit) st)) = ''Custom''"
  proof (cases "findClosestLocation ?la ?lo")
    case None
    then show ?thesis by (simp add: label_onEarthClick [OF assms])
  next
    case (Some found)
    from findClosestLocation_Some [OF Some] none show ?thesis by blast
  qed
next
  let ?s = "(settings st)\<lparr> latitude := 35.6833, longitude := - 139.7667 \<rparr>"
  have "pickGeoCoordinate (settings st) (multiplyScalar (surfacePoint ?s) 1.02)
        = (latitude ?s, longitude ?s)"
    by (rule pick_scaled_surfacePoint) simp_all
  then have pick: "pickGeoCoordinate (settings st) (position (updateLocationMarker ?s))
        = (35.6833, - 139.7667)"
    by (simp add: marker_position)
  have found: "findClosestLocation 35.6833 (- 139.7667)
        = Some \<lparr> name = ''Tokyo'', lat = 35.6833, lon = -139.7667 \<rparr>"
    by (simp add: findClosestLocation_def locations_def)
  show "selectedLocation (settings (onEarthClick (Some (position (updateLocationMarker ?s))) st))
        = ''Tokyo''"
    unfolding label_onEarthClick [OF assms] pick fst_conv snd_conv found by simp
qed

theorem pick_label_witness:
  "selectedLocation (settings (onEarthClick
      (Some (position (updateLocationMarker
         ((settings initialState)\<lparr> latitude := 35.6833, longitude := - 139.7667 \<rparr>))))
      initialState)) = ''Tokyo''"
proof -
  have "\<not> hasDragged initialState"
    by (simp add: initialState_def updateEarthRotation_def refreshPictureInPicture_pipCamera)
  from pick_label [OF this] show ?thesis by blast
qed

end
